theory Spec2Isabelle
  imports Complex_Main
begin

section \<open>Relativistic light clock: the frame driver and its two views\<close>

text \<open>
  The simulation lives in three React components. \<open>App\<close> owns the control inputs
  (play/pause, velocity ratio, trail toggle, scenario, reset key) and the shared
  physics record; \<open>SimulationCanvas\<close> owns the simulation state and the scene
  objects and runs the frame driver \<open>animate\<close>; \<open>RelativeView\<close> reads the shared
  record to place its own photon.

  JavaScript numbers are modelled as \<^typ>\<open>real\<close>: the arithmetic is the exact one,
  without IEEE rounding, overflow or NaN. \<open>Math.sqrt\<close> is \<^const>\<open>sqrt\<close>, which
  agrees with it on the non-negative arguments that the slider's range
  \<open>[0, 0.99]\<close> produces.
\<close>

subsection \<open>Vectors and the scene-graph operations the driver calls\<close>

record Vector3 =
  vec_x :: real
  vec_y :: real
  vec_z :: real

definition vec3 :: "real \<Rightarrow> real \<Rightarrow> real \<Rightarrow> Vector3" where
  "vec3 a b c = \<lparr>vec_x = a, vec_y = b, vec_z = c\<rparr>"

definition vec_add :: "Vector3 \<Rightarrow> Vector3 \<Rightarrow> Vector3" where
  "vec_add u v = vec3 (vec_x u + vec_x v) (vec_y u + vec_y v) (vec_z u + vec_z v)"

text \<open>
  \<open>Vector3.applyEuler\<close> with the library's default axis order XYZ: the vector is
  turned about z, then about y, then about x. The Euler angles are carried in a
  \<^typ>\<open>Vector3\<close>.
\<close>

definition rotZ :: "real \<Rightarrow> Vector3 \<Rightarrow> Vector3" where
  "rotZ a v = vec3 (vec_x v * cos a - vec_y v * sin a) (vec_x v * sin a + vec_y v * cos a) (vec_z v)"

definition rotY :: "real \<Rightarrow> Vector3 \<Rightarrow> Vector3" where
  "rotY a v = vec3 (vec_x v * cos a + vec_z v * sin a) (vec_y v) (vec_z v * cos a - vec_x v * sin a)"

definition rotX :: "real \<Rightarrow> Vector3 \<Rightarrow> Vector3" where
  "rotX a v = vec3 (vec_x v) (vec_y v * cos a - vec_z v * sin a) (vec_y v * sin a + vec_z v * cos a)"

definition applyEuler :: "Vector3 \<Rightarrow> Vector3 \<Rightarrow> Vector3" where
  "applyEuler v e = rotX (vec_x e) (rotY (vec_y e) (rotZ (vec_z e) v))"

subsection \<open>Data model\<close>

datatype SimulationScenario = LINEAR | EARTH_ORBIT | SOLAR_SYSTEM | GALAXY

text \<open>\<open>threeRef.current.state\<close> of the canvas.\<close>

record SimState =
  celestialTime :: real
  shipTime :: real
  linearOffset :: real
  photonPhase :: real
  photonDir :: real
  trailPoints :: "Vector3 list"

text \<open>The object behind \<open>sharedSimState.current\<close>.\<close>

record SharedPhysics =
  shared_photonPhase :: real
  shared_photonDir :: real

text \<open>
  The fields of \<open>threeRef.current.objects\<close> that the driver writes and that the
  platform pose and the photon placement consist of. Lights, camera, bodies and
  star fields are rendering detail and are left out.
\<close>

record SceneObjects =
  shipGroup_position :: Vector3
  shipMesh_rotation :: Vector3
  shipMesh_scale :: Vector3
  clockApparatus_rotation :: Vector3
  photon_position :: Vector3

text \<open>
  One record for everything mutable: the \<open>useState\<close> cells of \<open>App\<close> (handed to
  the canvas as its props, \<open>orbitSpeed\<close> under the name \<open>orbitSpeedMultiplier\<close>),
  the \<open>useRef\<close> cell \<open>sharedSimState\<close> (\<open>None\<close> when \<open>current\<close> is null, which
  the guards of the canvas test for), and the canvas's \<open>threeRef.current\<close>.
\<close>

record World =
  isRunning :: bool
  orbitSpeed :: real
  showTrail :: bool
  scenario :: SimulationScenario
  resetKey :: nat
  sharedSimState :: "SharedPhysics option"
  state :: SimState
  objects :: SceneObjects

subsection \<open>Kinematics (the constants and speeds at the head of \<open>animate\<close>)\<close>

definition SPEED_OF_LIGHT :: real where
  "SPEED_OF_LIGHT = 8 / 10"

definition CLOCK_TRAVEL_DIST :: real where
  "CLOCK_TRAVEL_DIST = 6"

definition CELESTIAL_DT :: real where
  "CELESTIAL_DT = 2 / 100"

definition vShip :: "real \<Rightarrow> real" where
  "vShip vRatio = vRatio * SPEED_OF_LIGHT"

definition vVertical :: "real \<Rightarrow> real" where
  "vVertical vRatio = sqrt (1 - vRatio * vRatio) * SPEED_OF_LIGHT"

definition photonPhaseStep :: "real \<Rightarrow> real" where
  "photonPhaseStep vRatio = vVertical vRatio / CLOCK_TRAVEL_DIST"

definition contraction :: "real \<Rightarrow> real" where
  "contraction vRatio = sqrt (1 - vRatio * vRatio)"

subsection \<open>The frame driver, block by block\<close>

text \<open>The two bounce tests, in the order of the source.\<close>

definition bounce :: "SimState \<Rightarrow> SimState" where
  "bounce s =
     (let s1 = (if photonPhase s \<ge> 1 then s\<lparr>photonPhase := 1, photonDir := - 1\<rparr> else s)
      in (if photonPhase s1 \<le> 0 then s1\<lparr>photonPhase := 0, photonDir := 1\<rparr> else s1))"

text \<open>
  The \<open>if (isRunning)\<close> block: the two clocks, the linear offset, the phase.
  Recycling of the linear star field only moves background stars and is left out.
\<close>

definition advance :: "bool \<Rightarrow> real \<Rightarrow> SimulationScenario \<Rightarrow> SimState \<Rightarrow> SimState" where
  "advance running vRatio scen s =
     (if running then
        (let s1 = s\<lparr>celestialTime := celestialTime s + CELESTIAL_DT\<rparr>;
             s2 = s1\<lparr>shipTime := shipTime s1 + vShip vRatio * (5 / 100)\<rparr>;
             s3 = (if scen = LINEAR then s2\<lparr>linearOffset := linearOffset s2 + vShip vRatio\<rparr> else s2);
             s4 = s3\<lparr>photonPhase := photonPhase s3 + photonDir s3 * photonPhaseStep vRatio\<rparr>
         in bounce s4)
      else s)"

text \<open>The guarded write to the shared record.\<close>

definition syncShared :: "SimState \<Rightarrow> SharedPhysics option \<Rightarrow> SharedPhysics option" where
  "syncShared s sh =
     (case sh of
        None \<Rightarrow> None
      | Some r \<Rightarrow> Some (r\<lparr>shared_photonPhase := photonPhase s, shared_photonDir := photonDir s\<rparr>))"

text \<open>Position of the body the platform circles, per orbital scenario.\<close>

definition tiltAngle :: "SimulationScenario \<Rightarrow> real" where
  "tiltAngle scen = (if scen = GALAXY then 60 * (pi / 180) else 0)"

definition earthPosition :: "SimulationScenario \<Rightarrow> SimState \<Rightarrow> Vector3" where
  "earthPosition scen s =
     (if scen = GALAXY then
        (let sunOrbitAngle = celestialTime s * (1 / 10) + pi;
             centerPos = vec3 (cos sunOrbitAngle * 300) 0 (- sin sunOrbitAngle * 300);
             earthAngle = celestialTime s * 2;
             ex = cos earthAngle * 60;
             ez = - sin earthAngle * 60
         in vec_add centerPos (vec3 ex (ez * sin (tiltAngle scen)) (ez * cos (tiltAngle scen))))
      else if scen = SOLAR_SYSTEM then
        vec3 (cos (celestialTime s * (3 / 10)) * 120) 0 (- sin (celestialTime s * (3 / 10)) * 120)
      else vec3 0 0 0)"

definition orbitPosition :: "SimulationScenario \<Rightarrow> SimState \<Rightarrow> Vector3" where
  "orbitPosition scen s =
     (let orbitR = 50;
          shipAngle = shipTime s * (25 / 10);
          sx = cos shipAngle * orbitR;
          sz = - sin shipAngle * orbitR;
          fy = (if tiltAngle scen \<noteq> 0 then sz * sin (tiltAngle scen) else 0);
          fz = (if tiltAngle scen \<noteq> 0 then sz * cos (tiltAngle scen) else sz)
      in vec_add (vec3 sx fy fz) (earthPosition scen s))"

text \<open>The positioning block: the platform pose for this tick.\<close>

definition positioning :: "real \<Rightarrow> SimulationScenario \<Rightarrow> SimState \<Rightarrow> SceneObjects \<Rightarrow> SceneObjects" where
  "positioning vRatio scen s ob =
     (if scen = LINEAR then
        ob\<lparr>shipGroup_position := vec3 (linearOffset s) 0 0,
           shipMesh_rotation := vec3 0 0 0,
           clockApparatus_rotation := vec3 (3 / 10) (pi / 2) 0,
           shipMesh_scale := vec3 (contraction vRatio) 1 1\<rparr>
      else
        ob\<lparr>shipMesh_scale := vec3 1 1 1,
           shipGroup_position := orbitPosition scen s,
           shipMesh_rotation := vec3 (tiltAngle scen) (shipTime s * (25 / 10)) 0,
           clockApparatus_rotation := vec3 0 0 (3 / 10)\<rparr>)"

text \<open>
  The photon's world position. The clock apparatus sits at the origin of the
  ship mesh, which sits at the origin of the ship group, so its world position
  is the group's position; its world orientation is its own rotation followed
  by the mesh's (the mesh's scale leaves the orientation alone: in the one
  scenario that scales, the scaled axis is the clock's own third axis).
\<close>

definition photonWorldPosition :: "SimState \<Rightarrow> SceneObjects \<Rightarrow> Vector3" where
  "photonWorldPosition s ob =
     (let range = 3;
          localY = - range + photonPhase s * (range * 2);
          localOffset = applyEuler (applyEuler (vec3 0 localY 0) (clockApparatus_rotation ob))
                                   (shipMesh_rotation ob)
      in vec_add (shipGroup_position ob) localOffset)"

text \<open>The trail block: append, cap, LINEAR eviction, clear. \<open>shift()\<close> is \<^const>\<open>tl\<close>.\<close>

definition trailMax :: nat where
  "trailMax = 5000"

definition trailUpdate :: "bool \<Rightarrow> bool \<Rightarrow> SimulationScenario \<Rightarrow> Vector3 \<Rightarrow> SimState \<Rightarrow> SimState" where
  "trailUpdate trail running scen finalPhotonPos s =
     (let s1 =
        (if trail \<and> running then
           (let t1 = trailPoints s @ [finalPhotonPos];
                t2 = (if length t1 > trailMax then tl t1 else t1);
                t3 = (if scen = LINEAR \<and> length t2 > 0
                      then (if vec_x (hd t2) < linearOffset s - 1200 then tl t2 else t2)
                      else t2)
            in s\<lparr>trailPoints := t3\<rparr>)
         else s)
      in (if \<not> trail then s1\<lparr>trailPoints := []\<rparr> else s1))"

text \<open>One call of \<open>animate\<close>, with the props the enclosing effect closed over.\<close>

definition animate :: "World \<Rightarrow> World" where
  "animate w =
     (let s1 = advance (isRunning w) (orbitSpeed w) (scenario w) (state w);
          sh = syncShared s1 (sharedSimState w);
          ob1 = positioning (orbitSpeed w) (scenario w) s1 (objects w);
          finalPhotonPos = photonWorldPosition s1 ob1;
          ob2 = ob1\<lparr>photon_position := finalPhotonPos\<rparr>;
          s2 = trailUpdate (showTrail w) (isRunning w) (scenario w) finalPhotonPos s1
      in w\<lparr>sharedSimState := sh, state := s2, objects := ob2\<rparr>)"

subsection \<open>Mounting, the scenario effect and the reset handler\<close>

text \<open>
  The mount effect stores a fresh \<open>threeRef.current\<close>: the literal state of the
  source and newly built scene objects (position and rotation zero, scale one).
\<close>

definition freshState :: SimState where
  "freshState = \<lparr>celestialTime = 0, shipTime = 0, linearOffset = 0,
                  photonPhase = 1 / 2, photonDir = 1, trailPoints = []\<rparr>"

definition freshObjects :: SceneObjects where
  "freshObjects = \<lparr>shipGroup_position = vec3 0 0 0, shipMesh_rotation = vec3 0 0 0,
                    shipMesh_scale = vec3 1 1 1, clockApparatus_rotation = vec3 0 0 0,
                    photon_position = vec3 0 0 0\<rparr>"

definition mountCanvas :: "World \<Rightarrow> World" where
  "mountCanvas w = w\<lparr>state := freshState, objects := freshObjects\<rparr>"

text \<open>
  The body of the effect keyed on \<open>scenario\<close>, in the order of the source: the
  five scalar fields, the guarded write to the shared record, the trail, and (for
  LINEAR) the offset once more. Camera placement is rendering detail. The effect
  returns at once while \<open>threeRef.current\<close> is null; a \<^typ>\<open>World\<close> is a mounted
  canvas, where it is not.
\<close>

definition scenarioEffect :: "World \<Rightarrow> World" where
  "scenarioEffect w =
     (let s1 = (state w)\<lparr>shipTime := 0, celestialTime := 0, linearOffset := 0,
                          photonPhase := 1 / 2, photonDir := 1\<rparr>;
          sh = (case sharedSimState w of
                  None \<Rightarrow> None
                | Some r \<Rightarrow> Some (r\<lparr>shared_photonPhase := 1 / 2, shared_photonDir := 1\<rparr>));
          s2 = s1\<lparr>trailPoints := []\<rparr>;
          s3 = (if scenario w = LINEAR then s2\<lparr>linearOffset := 0\<rparr> else s2)
      in w\<lparr>sharedSimState := sh, state := s3\<rparr>)"

text \<open>
  \<open>handleReset\<close> of \<open>App\<close>: three state setters and a new object for the shared
  record. The timer it starts fires later, as the event \<open>ResumeTimer\<close> below.
\<close>

definition handleReset :: "World \<Rightarrow> World" where
  "handleReset w =
     w\<lparr>isRunning := False, orbitSpeed := 0, resetKey := resetKey w + 1,
       sharedSimState := Some \<lparr>shared_photonPhase = 1 / 2, shared_photonDir = 1\<rparr>\<rparr>"

definition handleTogglePlay :: "World \<Rightarrow> World" where
  "handleTogglePlay w = w\<lparr>isRunning := \<not> isRunning w\<rparr>"

text \<open>
  The explicit reset as the user sees it: the handler, then what the changed
  \<open>key\<close> makes React do, which is to mount a new canvas and run its scenario
  effect.
\<close>

definition explicitReset :: "World \<Rightarrow> World" where
  "explicitReset w = scenarioEffect (mountCanvas (handleReset w))"

text \<open>The world once \<open>App\<close> and the canvas are mounted.\<close>

definition initialWorld :: World where
  "initialWorld = \<lparr>isRunning = True, orbitSpeed = 0, showTrail = True, scenario = EARTH_ORBIT,
                    resetKey = 0,
                    sharedSimState = Some \<lparr>shared_photonPhase = 1 / 2, shared_photonDir = 1\<rparr>,
                    state = freshState, objects = freshObjects\<rparr>"

subsection \<open>Events\<close>

text \<open>
  What can happen to a mounted application: an animation frame, or an input of
  the control surface. A setter that stores the value already held changes
  nothing; one that changes a prop of the canvas makes its loop effect run again,
  and that effect calls \<open>animate()\<close> once before it schedules the next frame.
\<close>

datatype Event =
    Frame
  | TogglePlay
  | SpeedChange real
  | ToggleTrail
  | ScenarioChange SimulationScenario
  | Reset
  | ResumeTimer

fun step :: "Event \<Rightarrow> World \<Rightarrow> World" where
  "step Frame w = animate w"
| "step TogglePlay w = animate (handleTogglePlay w)"
| "step (SpeedChange v) w = (if v = orbitSpeed w then w else animate (w\<lparr>orbitSpeed := v\<rparr>))"
| "step ToggleTrail w = animate (w\<lparr>showTrail := \<not> showTrail w\<rparr>)"
| "step (ScenarioChange sc) w =
     (if sc = scenario w then w else animate (scenarioEffect (w\<lparr>scenario := sc\<rparr>)))"
| "step Reset w = animate (explicitReset w)"
| "step ResumeTimer w = (if isRunning w then w else animate (w\<lparr>isRunning := True\<rparr>))"

fun run :: "Event list \<Rightarrow> World \<Rightarrow> World" where
  "run [] w = w"
| "run (e # es) w = run es (step e w)"

subsection \<open>The relative view\<close>

text \<open>
  \<open>RelativeView.animate\<close>, as far as the photon goes: read the phase from the
  shared record, place the photon on the clock's axis, turn it by the clock
  group's rotation, then advance that rotation. Reading through a null
  \<open>current\<close> throws; that is \<open>None\<close>. The warp star field and the view's own
  trail are rendering detail.
\<close>

record RelativeScene =
  clockGroup_rotation :: Vector3
  relPhoton_position :: Vector3

definition relativeCurrentPhase :: "SharedPhysics option \<Rightarrow> real option" where
  "relativeCurrentPhase sh = (case sh of None \<Rightarrow> None | Some r \<Rightarrow> Some (shared_photonPhase r))"

definition relativeAnimate ::
  "bool \<Rightarrow> real \<Rightarrow> SharedPhysics option \<Rightarrow> RelativeScene \<Rightarrow> RelativeScene option" where
  "relativeAnimate running speed sh rs =
     (case relativeCurrentPhase sh of
        None \<Rightarrow> None
      | Some currentPhase \<Rightarrow>
          (let range = 3;
               y = - range + currentPhase * (range * 2);
               localPos = applyEuler (vec3 0 y 0) (clockGroup_rotation rs);
               rotSpeed = 2 / 1000 + speed * (5 / 100)
           in Some (rs\<lparr>relPhoton_position := localPos,
                        clockGroup_rotation :=
                          (clockGroup_rotation rs)\<lparr>vec_y := vec_y (clockGroup_rotation rs) + rotSpeed\<rparr>\<rparr>)))"

subsection \<open>The two frame loops\<close>

text \<open>
  The canvas and the relative view each keep their own \<open>requestAnimationFrame\<close>
  loop. A callback registers its successor first, so the two pending callbacks
  run, frame after frame, in the order in which they were last registered. An
  effect that runs again cancels its pending callback and calls \<open>animate()\<close>,
  which registers a new one behind whatever is pending. The canvas's loop effect
  depends on \<open>isRunning\<close>, \<open>orbitSpeedMultiplier\<close>, \<open>showTrail\<close> and \<open>scenario\<close>
  (and runs on mount); the view's depends on \<open>isRunning\<close> and \<open>speed\<close> only. In
  one commit the canvas's effects run before the view's.

  \<open>canvasFirst\<close> says that the canvas's pending callback is ahead of the view's;
  \<open>currentPhase\<close> is the value of the local of that name in the view's latest
  callback.
\<close>

record Display =
  world :: World
  canvasFirst :: bool
  relScene :: RelativeScene
  currentPhase :: "real option"

definition canvasCallback :: "Display \<Rightarrow> Display" where
  "canvasCallback d = d\<lparr>world := animate (world d)\<rparr>"

definition viewCallback :: "Display \<Rightarrow> Display" where
  "viewCallback d =
     (case relativeAnimate (isRunning (world d)) (orbitSpeed (world d))
             (sharedSimState (world d)) (relScene d) of
        None \<Rightarrow> d\<lparr>currentPhase := None\<rparr>
      | Some rs \<Rightarrow>
          d\<lparr>relScene := rs, currentPhase := relativeCurrentPhase (sharedSimState (world d))\<rparr>)"

definition frame :: "Display \<Rightarrow> Display" where
  "frame d = (if canvasFirst d then viewCallback (canvasCallback d)
              else canvasCallback (viewCallback d))"

text \<open>
  The view builds its scene inside the effect that holds its loop, so every run
  of that effect starts from a new clock group.
\<close>

definition freshRelScene :: RelativeScene where
  "freshRelScene = \<lparr>clockGroup_rotation = vec3 (2 / 10) (3 / 10) 0,
                     relPhoton_position = vec3 0 0 0\<rparr>"

text \<open>
  A commit in which both loop effects run again (the canvas's first), and one in
  which only the canvas's does.
\<close>

definition bothEffects :: "Event \<Rightarrow> Display \<Rightarrow> Display" where
  "bothEffects e d =
     viewCallback (d\<lparr>world := step e (world d), canvasFirst := True, relScene := freshRelScene\<rparr>)"

definition canvasEffect :: "Event \<Rightarrow> Display \<Rightarrow> Display" where
  "canvasEffect e d = d\<lparr>world := step e (world d), canvasFirst := False\<rparr>"

text \<open>
  An animation frame runs the two pending callbacks in their order. Play, pause
  and a speed change alter a prop of both components; the trail toggle and the
  scenario alter props of the canvas only; a reset remounts the canvas and
  alters the view's props unless the application was already paused at rest.
\<close>

fun stepD :: "Event \<Rightarrow> Display \<Rightarrow> Display" where
  "stepD Frame d = frame d"
| "stepD TogglePlay d = bothEffects TogglePlay d"
| "stepD (SpeedChange v) d =
     (if v = orbitSpeed (world d) then d else bothEffects (SpeedChange v) d)"
| "stepD ToggleTrail d = canvasEffect ToggleTrail d"
| "stepD (ScenarioChange sc) d =
     (if sc = scenario (world d) then d else canvasEffect (ScenarioChange sc) d)"
| "stepD Reset d =
     (if isRunning (world d) \<or> orbitSpeed (world d) \<noteq> 0 then bothEffects Reset d
      else canvasEffect Reset d)"
| "stepD ResumeTimer d = (if isRunning (world d) then d else bothEffects ResumeTimer d)"

fun runD :: "Event list \<Rightarrow> Display \<Rightarrow> Display" where
  "runD [] d = d"
| "runD (e # es) d = runD es (stepD e d)"

definition initialDisplay :: Display where
  "initialDisplay = \<lparr>world = initialWorld, canvasFirst = True, relScene = freshRelScene,
                      currentPhase = None\<rparr>"

subsection \<open>Predicates on worlds\<close>

text \<open>The values every reset writes into the shared record.\<close>

definition defaultShared :: SharedPhysics where
  "defaultShared = \<lparr>shared_photonPhase = 1 / 2, shared_photonDir = 1\<rparr>"

text \<open>The shared record exists and holds exactly the state's phase and direction.\<close>

definition synced :: "World \<Rightarrow> bool" where
  "synced w = (sharedSimState w =
      Some \<lparr>shared_photonPhase = photonPhase (state w), shared_photonDir = photonDir (state w)\<rparr>)"

text \<open>
  The photon is strictly between the mirrors and heading either way, or on the
  top mirror heading down, or on the bottom mirror heading up.
\<close>

definition phaseOk :: "SimState \<Rightarrow> bool" where
  "phaseOk s =
     ((0 < photonPhase s \<and> photonPhase s < 1 \<and> (photonDir s = 1 \<or> photonDir s = - 1))
      \<or> (photonPhase s = 1 \<and> photonDir s = - 1)
      \<or> (photonPhase s = 0 \<and> photonDir s = 1))"

definition worldOk :: "World \<Rightarrow> bool" where
  "worldOk w = (phaseOk (state w) \<and> length (trailPoints (state w)) \<le> trailMax \<and> synced w)"

text \<open>
  The slider hands out velocity ratios between 0 and 0.99 only; an event
  sequence is admissible when every speed change in it is one of those.
\<close>

definition admissible :: "Event \<Rightarrow> bool" where
  "admissible e = (case e of SpeedChange v \<Rightarrow> 0 \<le> v \<and> v \<le> 99 / 100 | _ \<Rightarrow> True)"

definition speedInRange :: "World \<Rightarrow> bool" where
  "speedInRange w = (0 \<le> orbitSpeed w \<and> orbitSpeed w \<le> 99 / 100)"

subsection \<open>Particular event sequences and worlds\<close>

text \<open>
  A user switches a fresh application to LINEAR at rest, lets one more frame
  pass, moves the slider to 0.99 and watches 1515 further frames.
\<close>

definition staleTrailEvents :: "Event list" where
  "staleTrailEvents = [ScenarioChange LINEAR, Frame, SpeedChange (99 / 100)]
                       @ replicate 1514 Frame @ [Frame]"

text \<open>
  A user lets a fresh application draw one frame, pauses it, and switches the
  trail off: the world the loop effect then calls \<open>animate()\<close> on.
\<close>

definition pausedTrailOff :: World where
  "pausedTrailOff = (run [Frame, TogglePlay] initialWorld)\<lparr>showTrail := False\<rparr>"

text \<open>The same sequence without its last frame.\<close>

definition staleCruiseEvents :: "Event list" where
  "staleCruiseEvents = [ScenarioChange LINEAR, Frame, SpeedChange (99 / 100)]
                        @ replicate 1514 Frame"

text \<open>
  A LINEAR world at rest with the platform at 1300 and three trail points at
  0, 50 and 200.
\<close>

definition evictWorld :: World where
  "evictWorld =
     initialWorld\<lparr>scenario := LINEAR,
       state := freshState\<lparr>linearOffset := 1300,
                  trailPoints := [vec3 0 0 0, vec3 50 0 0, vec3 200 0 0]\<rparr>\<rparr>"


section \<open>Basic facts about the driver\<close>

lemma trailUpdate_fields [simp]:
  "celestialTime (trailUpdate t r sc p s) = celestialTime s"
  "shipTime (trailUpdate t r sc p s) = shipTime s"
  "linearOffset (trailUpdate t r sc p s) = linearOffset s"
  "photonPhase (trailUpdate t r sc p s) = photonPhase s"
  "photonDir (trailUpdate t r sc p s) = photonDir s"
  by (simp_all add: trailUpdate_def Let_def)

lemma animate_props [simp]:
  "isRunning (animate w) = isRunning w"
  "orbitSpeed (animate w) = orbitSpeed w"
  "showTrail (animate w) = showTrail w"
  "scenario (animate w) = scenario w"
  "resetKey (animate w) = resetKey w"
  by (simp_all add: animate_def Let_def)

lemma animate_state:
  "state (animate w) =
     trailUpdate (showTrail w) (isRunning w) (scenario w)
       (photonWorldPosition (advance (isRunning w) (orbitSpeed w) (scenario w) (state w))
          (positioning (orbitSpeed w) (scenario w)
             (advance (isRunning w) (orbitSpeed w) (scenario w) (state w)) (objects w)))
       (advance (isRunning w) (orbitSpeed w) (scenario w) (state w))"
  by (simp add: animate_def Let_def)

lemma animate_shared:
  "sharedSimState (animate w) =
     syncShared (advance (isRunning w) (orbitSpeed w) (scenario w) (state w)) (sharedSimState w)"
  by (simp add: animate_def Let_def)

lemma animate_photon:
  "photon_position (objects (animate w)) =
     photonWorldPosition (advance (isRunning w) (orbitSpeed w) (scenario w) (state w))
       (positioning (orbitSpeed w) (scenario w)
          (advance (isRunning w) (orbitSpeed w) (scenario w) (state w)) (objects w))"
  by (simp add: animate_def Let_def)

lemma animate_phase:
  "photonPhase (state (animate w)) =
     photonPhase (advance (isRunning w) (orbitSpeed w) (scenario w) (state w))"
  "photonDir (state (animate w)) =
     photonDir (advance (isRunning w) (orbitSpeed w) (scenario w) (state w))"
  by (simp_all add: animate_state)

lemma bounce_phase_dir:
  "photonPhase (bounce s) =
     (if photonPhase s \<ge> 1 then 1 else if photonPhase s \<le> 0 then 0 else photonPhase s)"
  "photonDir (bounce s) =
     (if photonPhase s \<ge> 1 then - 1 else if photonPhase s \<le> 0 then 1 else photonDir s)"
  by (simp_all add: bounce_def Let_def)

lemma bounce_other [simp]:
  "celestialTime (bounce s) = celestialTime s"
  "shipTime (bounce s) = shipTime s"
  "linearOffset (bounce s) = linearOffset s"
  "trailPoints (bounce s) = trailPoints s"
  by (simp_all add: bounce_def Let_def)

lemma advance_running_fields:
  "celestialTime (advance True v sc s) = celestialTime s + CELESTIAL_DT"
  "shipTime (advance True v sc s) = shipTime s + vShip v * (5 / 100)"
  "linearOffset (advance True v sc s) =
     (if sc = LINEAR then linearOffset s + vShip v else linearOffset s)"
  "trailPoints (advance True v sc s) = trailPoints s"
  by (simp_all add: advance_def Let_def)

lemma advance_running_phase:
  "photonPhase (advance True v sc s) =
     (if photonPhase s + photonDir s * photonPhaseStep v \<ge> 1 then 1
      else if photonPhase s + photonDir s * photonPhaseStep v \<le> 0 then 0
      else photonPhase s + photonDir s * photonPhaseStep v)"
  "photonDir (advance True v sc s) =
     (if photonPhase s + photonDir s * photonPhaseStep v \<ge> 1 then - 1
      else if photonPhase s + photonDir s * photonPhaseStep v \<le> 0 then 1
      else photonDir s)"
  by (simp_all add: advance_def Let_def bounce_phase_dir)

lemma advance_paused [simp]: "advance False v sc s = s"
  by (simp add: advance_def)

lemma animate_paused_state:
  "\<not> isRunning w \<Longrightarrow>
   state (animate w) = (if showTrail w then state w else (state w)\<lparr>trailPoints := []\<rparr>)"
  by (simp add: animate_state trailUpdate_def Let_def)

lemma initial_fields:
  "isRunning initialWorld" "orbitSpeed initialWorld = 0" "showTrail initialWorld"
  "scenario initialWorld = EARTH_ORBIT" "state initialWorld = freshState"
  by (simp_all add: initialWorld_def)

lemma fresh_fields:
  "photonPhase freshState = 1 / 2" "photonDir freshState = 1" "trailPoints freshState = []"
  "celestialTime freshState = 0" "shipTime freshState = 0" "linearOffset freshState = 0"
  by (simp_all add: freshState_def)

lemma photon_linear_x:
  "vec_x (photonWorldPosition s (positioning v LINEAR s ob)) = linearOffset s"
  by (simp add: photonWorldPosition_def positioning_def Let_def vec_add_def vec3_def
        applyEuler_def rotX_def rotY_def rotZ_def)

lemma animate_trail:
  "trailPoints (state (animate w)) =
     (if showTrail w then
        (if isRunning w then
           (let t1 = trailPoints (state w) @ [photon_position (objects (animate w))];
                t2 = (if length t1 > trailMax then tl t1 else t1)
            in (if scenario w = LINEAR \<and> vec_x (hd t2) < linearOffset (state (animate w)) - 1200
                then tl t2 else t2))
         else trailPoints (state w))
      else [])"
proof (cases "isRunning w")
  case False
  then show ?thesis by (simp add: animate_state trailUpdate_def Let_def)
next
  case True
  then have r: "isRunning w = True" by simp
  have ne: "(if trailMax < Suc (length (trailPoints (state w)))
             then tl (trailPoints (state w) @ [p]) else trailPoints (state w) @ [p]) \<noteq> []" for p
    by (cases "trailPoints (state w)") (simp_all add: trailMax_def)
  show ?thesis
    using ne
    by (simp add: animate_state animate_photon r trailUpdate_def Let_def advance_running_fields)
qed

lemma scenarioEffect_props [simp]:
  "isRunning (scenarioEffect w) = isRunning w"
  "orbitSpeed (scenarioEffect w) = orbitSpeed w"
  "showTrail (scenarioEffect w) = showTrail w"
  "scenario (scenarioEffect w) = scenario w"
  by (simp_all add: scenarioEffect_def Let_def)

lemma run_append: "run (es @ fs) w = run fs (run es w)"
  by (induction es arbitrary: w) simp_all

lemma photon_indep_objects:
  "photonWorldPosition s (positioning v sc s ob) = photonWorldPosition s (positioning v sc s ob')"
  by (simp add: photonWorldPosition_def positioning_def Let_def)

lemma state_animate_cong:
  "isRunning w = isRunning w' \<Longrightarrow> orbitSpeed w = orbitSpeed w' \<Longrightarrow> showTrail w = showTrail w' \<Longrightarrow>
   scenario w = scenario w' \<Longrightarrow> state w = state w' \<Longrightarrow> state (animate w) = state (animate w')"
  using photon_indep_objects [of _ _ _ "objects w" "objects w'"] by (simp add: animate_state)

subsection \<open>The phase step is positive and small on the slider's range\<close>

lemma sqrt_arg_pos: "0 \<le> b \<Longrightarrow> b \<le> 99 / 100 \<Longrightarrow> 0 < 1 - b * (b::real)"
proof -
  assume "0 \<le> b" "b \<le> 99 / 100"
  then have "b * b \<le> (99 / 100) * (99 / 100)" by (intro mult_mono) auto
  then show ?thesis by simp
qed

lemma step_pos: "0 \<le> b \<Longrightarrow> b \<le> 99 / 100 \<Longrightarrow> 0 < photonPhaseStep b"
  using sqrt_arg_pos [of b]
  by (simp add: photonPhaseStep_def vVertical_def SPEED_OF_LIGHT_def CLOCK_TRAVEL_DIST_def)

lemma step_small: "0 \<le> b \<Longrightarrow> b \<le> 99 / 100 \<Longrightarrow> photonPhaseStep b < 1"
proof -
  assume "0 \<le> b" "b \<le> 99 / 100"
  have "1 - b * b \<le> 1" by simp
  then have "sqrt (1 - b * b) \<le> 1" using real_sqrt_le_1_iff by blast
  moreover have "\<And>x::real. x \<le> 1 \<Longrightarrow> x * (8 / 10) / 6 < 1" by simp
  ultimately show ?thesis
    unfolding photonPhaseStep_def vVertical_def SPEED_OF_LIGHT_def CLOCK_TRAVEL_DIST_def by blast
qed

lemma step_zero: "photonPhaseStep 0 = 2 / 15"
  by (simp add: photonPhaseStep_def vVertical_def SPEED_OF_LIGHT_def CLOCK_TRAVEL_DIST_def)

lemma run_Frame_TogglePlay:
  "\<not> isRunning (run [Frame, TogglePlay] initialWorld)
   \<and> showTrail (run [Frame, TogglePlay] initialWorld)
   \<and> trailPoints (state (run [Frame, TogglePlay] initialWorld))
        = [photon_position (objects (animate initialWorld))]
   \<and> photonPhase (state (run [Frame, TogglePlay] initialWorld)) = 19 / 30
   \<and> celestialTime (state (run [Frame, TogglePlay] initialWorld)) = 2 / 100"
proof -
  have t: "trailPoints (state (animate initialWorld)) = [photon_position (objects (animate initialWorld))]"
    by (simp add: animate_trail Let_def initial_fields fresh_fields trailMax_def)
  have p: "photonPhase (state (animate initialWorld)) = 19 / 30"
    by (simp add: animate_phase initial_fields advance_running_phase step_zero fresh_fields)
  have c: "celestialTime (state (animate initialWorld)) = 2 / 100"
    by (simp add: animate_state initial_fields advance_running_fields fresh_fields CELESTIAL_DT_def)
  have n: "\<not> isRunning (handleTogglePlay (animate initialWorld))"
    by (simp add: handleTogglePlay_def initial_fields)
  have s: "showTrail (handleTogglePlay (animate initialWorld))"
    by (simp add: handleTogglePlay_def initial_fields)
  have "state (animate (handleTogglePlay (animate initialWorld))) = state (handleTogglePlay (animate initialWorld))"
    using animate_paused_state [OF n] s by simp
  then have "state (run [Frame, TogglePlay] initialWorld) = state (animate initialWorld)"
    by (simp add: handleTogglePlay_def)
  moreover have "\<not> isRunning (run [Frame, TogglePlay] initialWorld)" using n by simp
  moreover have "showTrail (run [Frame, TogglePlay] initialWorld)" using s by simp
  ultimately show ?thesis using t p c by simp
qed

subsection \<open>What every reachable world satisfies\<close>

lemma phaseOk_advance: "phaseOk s \<Longrightarrow> phaseOk (advance r v sc s)"
proof (cases r)
  case False
  assume "phaseOk s" with False show ?thesis by simp
next
  case True
  assume "phaseOk s"
  then have d: "photonDir s = 1 \<or> photonDir s = - 1" by (auto simp: phaseOk_def)
  from True have r: "r = True" by simp
  show ?thesis unfolding r phaseOk_def advance_running_phase using d by auto
qed

lemma phaseOk_cong:
  "photonPhase s = photonPhase s' \<Longrightarrow> photonDir s = photonDir s' \<Longrightarrow> phaseOk s = phaseOk s'"
  by (simp add: phaseOk_def)

lemma phaseOk_fresh: "phaseOk freshState"
  by (simp add: phaseOk_def freshState_def)

lemma trailUpdate_length:
  "length (trailPoints s) \<le> trailMax \<Longrightarrow>
   length (trailPoints (trailUpdate t r sc p s)) \<le> trailMax"
  by (auto simp: trailUpdate_def Let_def)

lemma synced_animate: "sharedSimState w = Some r \<Longrightarrow> synced (animate w)"
  by (cases r) (simp add: synced_def animate_shared animate_phase syncShared_def)

lemma synced_scenarioEffect: "sharedSimState w = Some r \<Longrightarrow> synced (scenarioEffect w)"
  by (cases r) (simp add: synced_def scenarioEffect_def Let_def)

lemma synced_explicitReset: "synced (explicitReset w)"
  by (simp add: synced_def explicitReset_def scenarioEffect_def Let_def mountCanvas_def
        handleReset_def freshState_def)

lemma state_scenarioEffect: "state (scenarioEffect w) = freshState"
  by (cases "state w") (simp add: scenarioEffect_def Let_def freshState_def)

lemma state_explicitReset: "state (explicitReset w) = freshState"
  by (simp add: explicitReset_def state_scenarioEffect)

lemma worldOk_animate: "worldOk w \<Longrightarrow> worldOk (animate w)"
proof -
  assume a: "worldOk w"
  let ?s = "advance (isRunning w) (orbitSpeed w) (scenario w) (state w)"
  from a have "phaseOk ?s" by (simp add: worldOk_def phaseOk_advance)
  then have 1: "phaseOk (state (animate w))"
    using phaseOk_cong [of "state (animate w)" ?s] by (simp add: animate_phase)
  have "trailPoints ?s = trailPoints (state w)"
    by (cases "isRunning w") (simp_all add: advance_running_fields)
  with a have 2: "length (trailPoints (state (animate w))) \<le> trailMax"
    by (simp add: animate_state worldOk_def trailUpdate_length)
  from a obtain r where "sharedSimState w = Some r" by (auto simp: worldOk_def synced_def)
  then have 3: "synced (animate w)" by (rule synced_animate)
  from 1 2 3 show ?thesis by (simp add: worldOk_def)
qed

lemma worldOk_scenarioEffect: "worldOk w \<Longrightarrow> worldOk (scenarioEffect w)"
proof -
  assume "worldOk w"
  then obtain r where "sharedSimState w = Some r" by (auto simp: worldOk_def synced_def)
  then have "synced (scenarioEffect w)" by (rule synced_scenarioEffect)
  then show ?thesis
    by (simp add: worldOk_def state_scenarioEffect phaseOk_fresh) (simp add: freshState_def)
qed

lemma worldOk_explicitReset: "worldOk (explicitReset w)"
  by (simp add: worldOk_def state_explicitReset phaseOk_fresh synced_explicitReset)
     (simp add: freshState_def)

lemma worldOk_props:
  "worldOk (w\<lparr>isRunning := a\<rparr>) = worldOk w"
  "worldOk (w\<lparr>orbitSpeed := b\<rparr>) = worldOk w"
  "worldOk (w\<lparr>showTrail := c\<rparr>) = worldOk w"
  "worldOk (w\<lparr>scenario := d\<rparr>) = worldOk w"
  by (simp_all add: worldOk_def synced_def)

lemma worldOk_step: "worldOk w \<Longrightarrow> worldOk (step e w)"
  by (cases e)
     (simp_all add: worldOk_animate worldOk_scenarioEffect worldOk_explicitReset worldOk_props
        handleTogglePlay_def)

lemma worldOk_run: "worldOk w \<Longrightarrow> worldOk (run es w)"
  by (induction es arbitrary: w) (simp_all add: worldOk_step)

lemma worldOk_initial: "worldOk initialWorld"
  by (simp add: worldOk_def synced_def initialWorld_def phaseOk_fresh) (simp add: freshState_def)

lemma worldOk_reachable: "worldOk (run es initialWorld)"
  by (simp add: worldOk_run worldOk_initial)

lemma speedInRange_step: "admissible e \<Longrightarrow> speedInRange w \<Longrightarrow> speedInRange (step e w)"
  by (cases e)
     (simp_all add: speedInRange_def admissible_def handleTogglePlay_def explicitReset_def
        scenarioEffect_def mountCanvas_def handleReset_def Let_def)

lemma speedInRange_run:
  "list_all admissible es \<Longrightarrow> speedInRange w \<Longrightarrow> speedInRange (run es w)"
  by (induction es arbitrary: w) (simp_all add: speedInRange_step)

lemma speedInRange_reachable: "list_all admissible es \<Longrightarrow> speedInRange (run es initialWorld)"
  by (rule speedInRange_run) (simp_all add: speedInRange_def initialWorld_def)

section \<open>Shared physics record\<close>

lemma world_viewCallback [simp]: "world (viewCallback d) = world d"
  by (simp add: viewCallback_def split: option.splits)

lemma canvasFirst_viewCallback [simp]: "canvasFirst (viewCallback d) = canvasFirst d"
  by (simp add: viewCallback_def split: option.splits)

lemma world_frame: "world (frame d) = animate (world d)"
  by (simp add: frame_def canvasCallback_def)

lemma canvasFirst_frame: "canvasFirst (frame d) = canvasFirst d"
  by (simp add: frame_def canvasCallback_def)

lemma world_stepD: "world (stepD e d) = step e (world d)"
  by (cases e) (simp_all add: world_frame bothEffects_def canvasEffect_def del: step.simps,
                simp_all)

lemma world_runD: "world (runD es d) = run es (world d)"
  by (induction es arbitrary: d) (simp_all add: world_stepD del: step.simps)

lemma viewCallback_Some:
  "sharedSimState (world d) = Some r \<Longrightarrow>
   currentPhase (viewCallback d) = Some (shared_photonPhase r)
   \<and> relPhoton_position (relScene (viewCallback d))
       = applyEuler (vec3 0 (- 3 + shared_photonPhase r * 6) 0) (clockGroup_rotation (relScene d))"
  by (simp add: viewCallback_def relativeAnimate_def relativeCurrentPhase_def Let_def)

lemma viewCallback_synced:
  "synced (world d) \<Longrightarrow>
   currentPhase (viewCallback d) = Some (photonPhase (state (world d)))
   \<and> relPhoton_position (relScene (viewCallback d))
       = applyEuler (vec3 0 (- 3 + photonPhase (state (world d)) * 6) 0)
           (clockGroup_rotation (relScene d))"
  using viewCallback_Some [of d] by (simp add: synced_def)

lemma frame_reads:
  assumes "synced (world d)"
  shows "currentPhase (frame d)
           = Some (if canvasFirst d then photonPhase (state (animate (world d)))
                   else photonPhase (state (world d)))
       \<and> relPhoton_position (relScene (frame d))
           = applyEuler
               (vec3 0 (- 3 + (if canvasFirst d then photonPhase (state (animate (world d)))
                               else photonPhase (state (world d))) * 6) 0)
               (clockGroup_rotation (relScene d))"
proof (cases "canvasFirst d")
  case True
  from assms obtain r where "sharedSimState (world d) = Some r" by (auto simp: synced_def)
  then have "synced (animate (world d))" by (rule synced_animate)
  then have s: "synced (world (canvasCallback d))" by (simp add: canvasCallback_def)
  have "relScene (canvasCallback d) = relScene d" by (simp add: canvasCallback_def)
  then show ?thesis
    using viewCallback_synced [OF s] True by (simp add: frame_def canvasCallback_def)
next
  case False
  have "currentPhase (canvasCallback (viewCallback d)) = currentPhase (viewCallback d)"
       "relScene (canvasCallback (viewCallback d)) = relScene (viewCallback d)"
    by (simp_all add: canvasCallback_def)
  then show ?thesis using viewCallback_synced [OF assms] False by (simp add: frame_def)
qed

lemma synced_display: "synced (world (runD es initialDisplay))"
  using worldOk_reachable [of es] by (simp add: world_runD initialDisplay_def worldOk_def)

lemma run_FTF:
  "photonPhase (state (run [Frame, ToggleTrail] initialWorld)) = 23 / 30
   \<and> photonPhase (state (run [Frame, ToggleTrail, Frame] initialWorld)) = 9 / 10"
  by (simp add: animate_phase initial_fields advance_running_phase step_zero fresh_fields)

text \<open>
  Claim C1, as stated, fails. After the first frame and a trail toggle the
  canvas's callback is behind the view's: nothing in the code orders the two
  loops. In the next frame the view places its
  photon with phase 23/30, the value of the tick before, and the driver then
  writes 9/10.
\<close>

theorem relative_view_lags_counterexample:
  "currentPhase (runD [Frame, ToggleTrail, Frame] initialDisplay) = Some (23 / 30)
   \<and> photonPhase (state (world (runD [Frame, ToggleTrail, Frame] initialDisplay))) = 9 / 10
   \<and> relativeCurrentPhase (sharedSimState (world (runD [Frame, ToggleTrail, Frame] initialDisplay)))
       = Some (9 / 10)"
proof -
  define d where "d = runD [Frame, ToggleTrail] initialDisplay"
  have w: "world d = run [Frame, ToggleTrail] initialWorld"
    unfolding d_def by (simp add: world_runD initialDisplay_def del: runD.simps run.simps)
  have s: "synced (world d)" unfolding d_def by (rule synced_display)
  have c: "\<not> canvasFirst d" unfolding d_def by (simp add: canvasEffect_def)
  have r: "runD [Frame, ToggleTrail, Frame] initialDisplay = frame d" unfolding d_def by simp
  have 1: "currentPhase (frame d) = Some (23 / 30)"
    using frame_reads [OF s] c run_FTF by (simp add: w del: run.simps)
  have w': "world (frame d) = run [Frame, ToggleTrail, Frame] initialWorld"
    unfolding r [symmetric] by (simp add: world_runD initialDisplay_def del: runD.simps run.simps)
  have 2: "photonPhase (state (world (frame d))) = 9 / 10"
    unfolding w' using run_FTF by simp
  have "synced (world (frame d))" unfolding r [symmetric] by (rule synced_display)
  then have 3: "relativeCurrentPhase (sharedSimState (world (frame d))) = Some (9 / 10)"
    using 2 by (simp add: synced_def relativeCurrentPhase_def)
  show ?thesis unfolding r using 1 2 3 by simp
qed

text \<open>
  Claim C1, amended. In every frame of every reachable display the relative view
  places its photon with the shared record's phase as it stands when the view's
  callback runs, at \<open>-3 + 6 * phase\<close> on the clock's axis; it derives nothing
  from the velocity ratio or the time, and it does not read \<open>photonDir\<close>. When
  the canvas's callback is ahead (from mount, and after every play, pause or
  speed change) that is the phase the driver writes in this frame; when the
  view's is ahead (after a trail toggle or a scenario change) it is the phase
  the driver wrote in its previous tick. A frame keeps the order. The read the
  view makes when a play or pause runs its own effect again follows the
  driver's tick of that commit.
\<close>

theorem relative_view_reads_latest_written_phase:
  "world (frame (runD es initialDisplay)) = animate (world (runD es initialDisplay))
   \<and> currentPhase (frame (runD es initialDisplay))
       = Some (if canvasFirst (runD es initialDisplay)
               then photonPhase (state (world (frame (runD es initialDisplay))))
               else photonPhase (state (world (runD es initialDisplay))))
   \<and> relPhoton_position (relScene (frame (runD es initialDisplay)))
       = applyEuler
           (vec3 0 (- 3 + (if canvasFirst (runD es initialDisplay)
                           then photonPhase (state (world (frame (runD es initialDisplay))))
                           else photonPhase (state (world (runD es initialDisplay)))) * 6) 0)
           (clockGroup_rotation (relScene (runD es initialDisplay)))
   \<and> currentPhase (stepD TogglePlay (runD es initialDisplay))
       = Some (photonPhase (state (world (stepD TogglePlay (runD es initialDisplay)))))
   \<and> canvasFirst initialDisplay
   \<and> canvasFirst (stepD TogglePlay d)
   \<and> canvasFirst (stepD (SpeedChange v) d) = (canvasFirst d \<or> v \<noteq> orbitSpeed (world d))
   \<and> \<not> canvasFirst (stepD ToggleTrail d)
   \<and> canvasFirst (stepD (ScenarioChange sc) d) = (sc = scenario (world d) \<and> canvasFirst d)
   \<and> canvasFirst (stepD Frame d) = canvasFirst d"
proof -
  define D where "D = runD es initialDisplay"
  define E where
    "E = D\<lparr>world := step TogglePlay (world D), canvasFirst := True, relScene := freshRelScene\<rparr>"
  have "world E = world (runD (es @ [TogglePlay]) initialDisplay)"
    unfolding E_def D_def by (simp add: world_runD run_append del: step.simps)
  then have "synced (world E)" using synced_display [of "es @ [TogglePlay]"] by simp
  then have "currentPhase (viewCallback E) = Some (photonPhase (state (world E)))"
    using viewCallback_synced [of E] by simp
  then have t: "currentPhase (stepD TogglePlay D) = Some (photonPhase (state (world (stepD TogglePlay D))))"
    unfolding E_def by (simp add: bothEffects_def del: step.simps)
  have o: "canvasFirst initialDisplay
   \<and> canvasFirst (stepD TogglePlay d)
   \<and> canvasFirst (stepD (SpeedChange v) d) = (canvasFirst d \<or> v \<noteq> orbitSpeed (world d))
   \<and> \<not> canvasFirst (stepD ToggleTrail d)
   \<and> canvasFirst (stepD (ScenarioChange sc) d) = (sc = scenario (world d) \<and> canvasFirst d)
   \<and> canvasFirst (stepD Frame d) = canvasFirst d"
    by (auto simp: canvasFirst_frame bothEffects_def canvasEffect_def initialDisplay_def)
  show ?thesis
    using frame_reads [OF synced_display [of es]] t o
    unfolding D_def by (simp add: world_frame del: stepD.simps)
qed

theorem relative_view_reads_latest_written_phase_witness:
  "currentPhase (frame initialDisplay) = Some (19 / 30)
   \<and> photonPhase (state (world (frame initialDisplay))) = 19 / 30
   \<and> currentPhase (frame (runD [Frame, ToggleTrail] initialDisplay)) = Some (23 / 30)
   \<and> photonPhase (state (world (frame (runD [Frame, ToggleTrail] initialDisplay)))) = 9 / 10"
proof -
  have a: "photonPhase (state (animate initialWorld)) = 19 / 30"
    by (simp add: animate_phase initial_fields advance_running_phase step_zero fresh_fields)
  have i: "world initialDisplay = initialWorld" "canvasFirst initialDisplay"
    by (simp_all add: initialDisplay_def)
  have 1: "currentPhase (frame initialDisplay) = Some (19 / 30)
      \<and> photonPhase (state (world (frame initialDisplay))) = 19 / 30"
    using relative_view_reads_latest_written_phase [of "[]"] a i by simp
  define d where "d = runD [Frame, ToggleTrail] initialDisplay"
  have w: "world d = run [Frame, ToggleTrail] initialWorld"
    unfolding d_def by (simp add: world_runD initialDisplay_def del: runD.simps run.simps)
  have c: "\<not> canvasFirst d" unfolding d_def by (simp add: canvasEffect_def)
  have "animate (world d) = run [Frame, ToggleTrail, Frame] initialWorld"
    unfolding w by simp
  then have 2: "currentPhase (frame d) = Some (23 / 30)
      \<and> photonPhase (state (world (frame d))) = 9 / 10"
    using relative_view_reads_latest_written_phase [of "[Frame, ToggleTrail]"] c run_FTF
    unfolding d_def [symmetric] by (simp add: w del: run.simps runD.simps)
  show ?thesis using 1 2 unfolding d_def by simp
qed

text \<open>
  Claim C10. The driver's write to the shared record is outside the
  \<open>if (isRunning)\<close> block: after every tick, running or paused, from a world
  with a shared record, the record holds exactly the state's phase and
  direction. The scenario effect and the explicit reset leave the two equal as
  well, so the record agrees with the state after every sequence of events.
\<close>

theorem shared_record_equals_state_after_every_tick:
  "synced (run es initialWorld)
   \<and> synced (animate (w\<lparr>sharedSimState := Some r\<rparr>))
   \<and> synced (animate (w\<lparr>sharedSimState := Some r, isRunning := False\<rparr>))
   \<and> synced (scenarioEffect (w\<lparr>sharedSimState := Some r\<rparr>))
   \<and> synced (explicitReset w)"
proof -
  have "synced (run es initialWorld)"
    using worldOk_reachable [of es] by (simp add: worldOk_def)
  moreover have "synced (animate (w\<lparr>sharedSimState := Some r\<rparr>))"
    by (rule synced_animate [of _ r]) simp
  moreover have "synced (animate (w\<lparr>sharedSimState := Some r, isRunning := False\<rparr>))"
    by (rule synced_animate [of _ r]) simp
  moreover have "synced (scenarioEffect (w\<lparr>sharedSimState := Some r\<rparr>))"
    by (rule synced_scenarioEffect [of _ r]) simp
  ultimately show ?thesis by (simp add: synced_explicitReset)
qed

section \<open>Reset\<close>

lemma scenarioEffect_idem: "scenarioEffect (scenarioEffect w) = scenarioEffect w"
  by (cases "sharedSimState w") (simp_all add: scenarioEffect_def Let_def)

lemma shared_explicitReset: "sharedSimState (explicitReset w) = Some defaultShared"
  by (simp add: explicitReset_def scenarioEffect_def mountCanvas_def handleReset_def Let_def
        defaultShared_def)

lemma shared_scenarioEffect:
  "sharedSimState (scenarioEffect (w\<lparr>sharedSimState := Some r\<rparr>)) = Some defaultShared"
  by (cases r) (simp add: scenarioEffect_def Let_def defaultShared_def)

lemma state_step_Reset: "state (step Reset w) = freshState"
proof -
  have "\<not> isRunning (explicitReset w)"
    by (simp add: explicitReset_def scenarioEffect_def mountCanvas_def handleReset_def Let_def)
  then have "state (animate (explicitReset w)) =
      (if showTrail (explicitReset w) then state (explicitReset w)
       else (state (explicitReset w))\<lparr>trailPoints := []\<rparr>)"
    by (rule animate_paused_state)
  then show ?thesis by (simp add: state_explicitReset freshState_def)
qed

lemma step_ScenarioChange_state:
  assumes "sc \<noteq> scenario w"
  shows "state (step (ScenarioChange sc) w)
           = (if isRunning w then state (animate (w\<lparr>scenario := sc, state := freshState\<rparr>))
              else freshState)"
proof -
  define u where "u = scenarioEffect (w\<lparr>scenario := sc\<rparr>)"
  have u: "state u = freshState" "isRunning u = isRunning w" "orbitSpeed u = orbitSpeed w"
      "showTrail u = showTrail w" "scenario u = sc"
    unfolding u_def by (simp_all add: state_scenarioEffect)
  have s: "step (ScenarioChange sc) w = animate u" using assms by (simp add: u_def)
  show ?thesis
  proof (cases "isRunning w")
    case True
    have "state (animate u) = state (animate (w\<lparr>scenario := sc, state := freshState\<rparr>))"
      by (rule state_animate_cong) (simp_all add: u)
    then show ?thesis using True s by simp
  next
    case False
    then have "\<not> isRunning u" using u by simp
    then have "state (animate u) = (if showTrail u then state u else (state u)\<lparr>trailPoints := []\<rparr>)"
      by (rule animate_paused_state)
    then show ?thesis using False s by (simp add: u freshState_def)
  qed
qed

lemma step_ScenarioChange_synced:
  "sc \<noteq> scenario w \<Longrightarrow> synced (step (ScenarioChange sc) (w\<lparr>sharedSimState := Some r\<rparr>))"
proof -
  assume a: "sc \<noteq> scenario w"
  have "synced (scenarioEffect (w\<lparr>sharedSimState := Some r, scenario := sc\<rparr>))"
    by (rule synced_scenarioEffect [of _ r]) simp
  then obtain r' where "sharedSimState (scenarioEffect (w\<lparr>sharedSimState := Some r, scenario := sc\<rparr>)) = Some r'"
    by (auto simp: synced_def)
  then have "synced (animate (scenarioEffect (w\<lparr>sharedSimState := Some r, scenario := sc\<rparr>)))"
    by (rule synced_animate)
  then show ?thesis using a by simp
qed

lemma step_Reset_facts:
  "state (step Reset w) = freshState \<and> sharedSimState (step Reset w) = Some defaultShared
   \<and> \<not> isRunning (step Reset w) \<and> orbitSpeed (step Reset w) = 0
   \<and> resetKey (step Reset w) = resetKey w + 1"
proof -
  have p: "\<not> isRunning (explicitReset w)" "orbitSpeed (explicitReset w) = 0"
      "resetKey (explicitReset w) = resetKey w + 1"
    by (simp_all add: explicitReset_def scenarioEffect_def mountCanvas_def handleReset_def Let_def)
  have "sharedSimState (step Reset w) = Some defaultShared"
    using p(1) by (simp add: animate_shared shared_explicitReset syncShared_def state_explicitReset
        fresh_fields defaultShared_def)
  then show ?thesis using p state_step_Reset [of w] by simp
qed

lemma run_F_SC:
  "celestialTime (state (run [Frame, ScenarioChange LINEAR] initialWorld)) = 2 / 100
   \<and> photonPhase (state (run [Frame, ScenarioChange LINEAR] initialWorld)) = 19 / 30"
proof -
  define w where "w = animate initialWorld"
  have p: "isRunning w" "orbitSpeed w = 0" "scenario w = EARTH_ORBIT"
    unfolding w_def by (simp_all add: initial_fields)
  have "run [Frame, ScenarioChange LINEAR] initialWorld = step (ScenarioChange LINEAR) w"
    unfolding w_def by simp
  moreover have "state (step (ScenarioChange LINEAR) w)
      = state (animate (w\<lparr>scenario := LINEAR, state := freshState\<rparr>))"
    using step_ScenarioChange_state [of LINEAR w] p by simp
  ultimately have "state (run [Frame, ScenarioChange LINEAR] initialWorld)
      = state (animate (w\<lparr>scenario := LINEAR, state := freshState\<rparr>))" by simp
  then show ?thesis
    using p by (simp add: animate_state advance_running_fields advance_running_phase fresh_fields
        CELESTIAL_DT_def step_zero del: run.simps)
qed

text \<open>
  Claim C9, as stated, fails for a scenario change while running. The loop
  effect runs again in the same commit and its \<open>animate()\<close> ticks once, so after
  the first frame and a change to LINEAR the state and the shared record are one
  tick past the defaults: \<open>celestialTime\<close> 0.02, phase 19/30.
\<close>

theorem scenario_change_runs_a_tick_counterexample:
  "isRunning (run [Frame] initialWorld)
   \<and> celestialTime (state (run [Frame, ScenarioChange LINEAR] initialWorld)) = 2 / 100
   \<and> photonPhase (state (run [Frame, ScenarioChange LINEAR] initialWorld)) = 19 / 30
   \<and> relativeCurrentPhase (sharedSimState (run [Frame, ScenarioChange LINEAR] initialWorld))
       = Some (19 / 30)
   \<and> state (run [Frame, ScenarioChange LINEAR] initialWorld) \<noteq> freshState"
proof -
  have s: "synced (run [Frame, ScenarioChange LINEAR] initialWorld)"
    using worldOk_reachable [of "[Frame, ScenarioChange LINEAR]"] by (simp add: worldOk_def del: run.simps)
  have 1: "relativeCurrentPhase (sharedSimState (run [Frame, ScenarioChange LINEAR] initialWorld))
       = Some (19 / 30)"
    using s run_F_SC by (simp add: synced_def relativeCurrentPhase_def del: run.simps)
  have 2: "state (run [Frame, ScenarioChange LINEAR] initialWorld) \<noteq> freshState"
    using run_F_SC by (auto simp: fresh_fields simp del: run.simps)
  have 3: "isRunning (run [Frame] initialWorld)" by (simp add: initial_fields)
  show ?thesis using 1 2 3 run_F_SC by (simp del: run.simps)
qed

text \<open>
  Claim C9, amended. The scenario effect sets the state to the fixed defaults,
  whatever it was (both clocks and the offset 0, phase 0.5, direction +1, no
  trail points) and the shared record to 0.5 and +1; so does the remount of an
  explicit reset, which also builds new scene objects. The explicit reset pauses
  and sets the ratio to 0, so after the whole event the state and the shared
  record are those defaults, and a second reset gives the same. A scenario
  change is followed in the same commit by one tick of the driver: while paused
  the state is the defaults, while running it is one running tick from the
  defaults (\<open>celestialTime\<close> 0.02, \<open>shipTime\<close> the ratio times the reference
  speed times 0.05), the same whatever the state was before; the shared record
  holds the state's phase and direction in either case.
\<close>

theorem reset_and_scenario_change_defaults:
  "state (scenarioEffect w) = freshState
   \<and> sharedSimState (scenarioEffect (w\<lparr>sharedSimState := Some r\<rparr>)) = Some defaultShared
   \<and> scenarioEffect (scenarioEffect w) = scenarioEffect w
   \<and> state (mountCanvas w) = freshState \<and> objects (explicitReset w) = freshObjects
   \<and> state (step Reset w) = freshState
   \<and> sharedSimState (step Reset w) = Some defaultShared
   \<and> \<not> isRunning (step Reset w) \<and> orbitSpeed (step Reset w) = 0
   \<and> state (step Reset (step Reset w)) = state (step Reset w)
   \<and> sharedSimState (step Reset (step Reset w)) = sharedSimState (step Reset w)
   \<and> (sc \<noteq> scenario w \<longrightarrow>
        state (step (ScenarioChange sc) w)
          = (if isRunning w then state (animate (w\<lparr>scenario := sc, state := freshState\<rparr>))
             else freshState))
   \<and> (sc \<noteq> scenario w \<longrightarrow> synced (step (ScenarioChange sc) (w\<lparr>sharedSimState := Some r\<rparr>)))
   \<and> (sc \<noteq> scenario w \<and> isRunning w \<longrightarrow>
        celestialTime (state (step (ScenarioChange sc) w)) = 2 / 100
        \<and> shipTime (state (step (ScenarioChange sc) w)) = orbitSpeed w * SPEED_OF_LIGHT * (5 / 100))
   \<and> celestialTime freshState = 0 \<and> shipTime freshState = 0 \<and> linearOffset freshState = 0
   \<and> photonPhase freshState = 1 / 2 \<and> photonDir freshState = 1 \<and> trailPoints freshState = []
   \<and> shared_photonPhase defaultShared = 1 / 2 \<and> shared_photonDir defaultShared = 1"
proof -
  have m: "state (mountCanvas w) = freshState \<and> objects (explicitReset w) = freshObjects"
    by (simp add: mountCanvas_def explicitReset_def scenarioEffect_def Let_def)
  have i: "state (step Reset (step Reset w)) = state (step Reset w)
      \<and> sharedSimState (step Reset (step Reset w)) = sharedSimState (step Reset w)"
    using step_Reset_facts [of w] step_Reset_facts [of "step Reset w"] by (simp del: step.simps)
  have t: "sc \<noteq> scenario w \<and> isRunning w \<longrightarrow>
        celestialTime (state (step (ScenarioChange sc) w)) = 2 / 100
        \<and> shipTime (state (step (ScenarioChange sc) w)) = orbitSpeed w * SPEED_OF_LIGHT * (5 / 100)"
  proof
    assume a: "sc \<noteq> scenario w \<and> isRunning w"
    then have r: "isRunning w = True" by simp
    from a have "state (step (ScenarioChange sc) w) = state (animate (w\<lparr>scenario := sc, state := freshState\<rparr>))"
      using step_ScenarioChange_state [of sc w] by simp
    then show "celestialTime (state (step (ScenarioChange sc) w)) = 2 / 100
        \<and> shipTime (state (step (ScenarioChange sc) w)) = orbitSpeed w * SPEED_OF_LIGHT * (5 / 100)"
      by (simp add: animate_state r advance_running_fields fresh_fields CELESTIAL_DT_def vShip_def
            del: step.simps)
  qed
  show ?thesis
    using m i t step_ScenarioChange_state [of sc w] step_ScenarioChange_synced [of sc w r]
      step_Reset_facts [of w]
    by (simp add: state_scenarioEffect shared_scenarioEffect scenarioEffect_idem fresh_fields
          defaultShared_def del: step.simps)
qed

theorem reset_and_scenario_change_defaults_witness:
  "celestialTime (state (step (ScenarioChange LINEAR) (animate initialWorld))) = 2 / 100
   \<and> shipTime (state (step (ScenarioChange LINEAR) (animate initialWorld))) = 0
   \<and> state (step (ScenarioChange LINEAR) (run [Frame, TogglePlay] initialWorld)) = freshState
   \<and> synced (step (ScenarioChange LINEAR) (animate initialWorld))
   \<and> state (step Reset (animate initialWorld)) = freshState"
proof -
  define w where "w = animate initialWorld"
  have p: "isRunning w" "orbitSpeed w = 0" "scenario w = EARTH_ORBIT"
    unfolding w_def by (simp_all add: initial_fields)
  have "synced w" unfolding w_def using worldOk_reachable [of "[Frame]"] by (simp add: worldOk_def)
  then obtain r0 where r0: "sharedSimState w = Some r0" by (auto simp: synced_def)
  then have wr: "w\<lparr>sharedSimState := Some r0\<rparr> = w" by simp
  define v where "v = run [Frame, TogglePlay] initialWorld"
  have q: "\<not> isRunning v" "scenario v = EARTH_ORBIT"
    unfolding v_def using run_Frame_TogglePlay by (simp_all add: initial_fields handleTogglePlay_def)
  have ne: "LINEAR \<noteq> scenario w" "LINEAR \<noteq> scenario v" using p q by simp_all
  note tw = reset_and_scenario_change_defaults [of w r0 LINEAR, unfolded wr]
  note tv = reset_and_scenario_change_defaults [of v r0 LINEAR]
  have "celestialTime (state (step (ScenarioChange LINEAR) w)) = 2 / 100
   \<and> shipTime (state (step (ScenarioChange LINEAR) w)) = orbitSpeed w * SPEED_OF_LIGHT * (5 / 100)
   \<and> synced (step (ScenarioChange LINEAR) w)
   \<and> state (step Reset w) = freshState"
    using tw ne(1) p(1) by blast
  then have 1: "celestialTime (state (step (ScenarioChange LINEAR) w)) = 2 / 100
   \<and> shipTime (state (step (ScenarioChange LINEAR) w)) = 0
   \<and> synced (step (ScenarioChange LINEAR) w)
   \<and> state (step Reset w) = freshState"
    by (simp add: p(2) del: step.simps)
  have "state (step (ScenarioChange LINEAR) v)
          = (if isRunning v then state (animate (v\<lparr>scenario := LINEAR, state := freshState\<rparr>))
             else freshState)"
    using tv ne(2) by blast
  then have 2: "state (step (ScenarioChange LINEAR) v) = freshState"
    using q(1) by (simp del: step.simps)
  show ?thesis using 1 2 unfolding w_def v_def by (simp del: step.simps)
qed

section \<open>Photon phase and the two clocks\<close>

text \<open>
  Claim C2. In every world reached by an admissible event sequence (all velocity
  ratios in \<open>[0, 0.99]\<close>) the phase lies in \<open>[0, 1]\<close>. On a running tick from
  such a world, let \<open>p\<close> be the phase the update would give. The new phase is again in \<open>[0, 1]\<close>. If \<open>p\<close> reaches or passes 1,
  the phase becomes exactly 1 and the direction turns from +1 to -1 in that
  tick; if \<open>p\<close> reaches or passes 0, the phase becomes exactly 0 and the
  direction turns from -1 to +1; otherwise the phase is \<open>p\<close> and the direction is
  kept. From a phase on a mirror the next update lands strictly between the
  mirrors, so one crossing turns the direction once.
\<close>

theorem photonPhase_bounded_bounce:
  assumes adm: "list_all admissible es"
      and reach: "w = run es initialWorld"
      and running: "isRunning w"
      and p: "p = photonPhase (state w) + photonDir (state w) * photonPhaseStep (orbitSpeed w)"
  shows "0 \<le> photonPhase (state w) \<and> photonPhase (state w) \<le> 1
       \<and> 0 \<le> photonPhase (state (animate w)) \<and> photonPhase (state (animate w)) \<le> 1
       \<and> (1 \<le> p \<longrightarrow> photonPhase (state (animate w)) = 1
              \<and> photonDir (state w) = 1 \<and> photonDir (state (animate w)) = - 1)
       \<and> (p \<le> 0 \<longrightarrow> photonPhase (state (animate w)) = 0
              \<and> photonDir (state w) = - 1 \<and> photonDir (state (animate w)) = 1)
       \<and> (0 < p \<and> p < 1 \<longrightarrow> photonPhase (state (animate w)) = p
              \<and> photonDir (state (animate w)) = photonDir (state w))
       \<and> (photonPhase (state w) = 0 \<or> photonPhase (state w) = 1 \<longrightarrow> 0 < p \<and> p < 1)"
proof -
  from reach have ok: "phaseOk (state w)"
    using worldOk_reachable [of es] by (simp add: worldOk_def)
  from running have r: "isRunning w = True" by simp
  from adm reach have lo: "0 \<le> orbitSpeed w" and hi: "orbitSpeed w \<le> 99 / 100"
    using speedInRange_reachable [of es] by (simp_all add: speedInRange_def)
  have sp: "0 < photonPhaseStep (orbitSpeed w)" using lo hi by (rule step_pos)
  have ss: "photonPhaseStep (orbitSpeed w) < 1" using lo hi by (rule step_small)
  have ph: "photonPhase (state (animate w)) = (if 1 \<le> p then 1 else if p \<le> 0 then 0 else p)"
    by (simp add: animate_phase r advance_running_phase p)
  have dr: "photonDir (state (animate w))
      = (if 1 \<le> p then - 1 else if p \<le> 0 then 1 else photonDir (state w))"
    by (simp add: animate_phase r advance_running_phase p)
  from ok have c:
    "(0 < photonPhase (state w) \<and> photonPhase (state w) < 1
        \<and> (photonDir (state w) = 1 \<or> photonDir (state w) = - 1))
      \<or> (photonPhase (state w) = 1 \<and> photonDir (state w) = - 1)
      \<or> (photonPhase (state w) = 0 \<and> photonDir (state w) = 1)"
    by (simp add: phaseOk_def)
  from c have b0: "0 \<le> photonPhase (state w) \<and> photonPhase (state w) \<le> 1" by auto
  have b1: "0 \<le> photonPhase (state (animate w)) \<and> photonPhase (state (animate w)) \<le> 1"
    unfolding ph by simp
  have up: "1 \<le> p \<longrightarrow> photonDir (state w) = 1" using c sp p by auto
  have dn: "p \<le> 0 \<longrightarrow> photonDir (state w) = - 1" using c sp p by auto
  have ed: "photonPhase (state w) = 0 \<or> photonPhase (state w) = 1 \<longrightarrow> 0 < p \<and> p < 1"
    using c sp ss p by auto
  show ?thesis using b0 b1 up dn ed unfolding ph dr by simp
qed

lemma run3_phase:
  "photonPhase (state (run [Frame, Frame, Frame] initialWorld)) = 9 / 10
   \<and> photonDir (state (run [Frame, Frame, Frame] initialWorld)) = 1
   \<and> isRunning (run [Frame, Frame, Frame] initialWorld)
   \<and> orbitSpeed (run [Frame, Frame, Frame] initialWorld) = 0"
  by (simp add: animate_phase initial_fields advance_running_phase step_zero fresh_fields)

text \<open>
  At rest the step is 2/15. The first tick of a new application moves the phase
  from 1/2 to 19/30; the fourth would reach 31/30 and bounces off the top
  mirror instead.
\<close>

theorem photonPhase_bounded_bounce_witness:
  "photonPhase (state (animate initialWorld)) = 19 / 30
   \<and> photonDir (state (animate initialWorld)) = 1
   \<and> photonPhase (state (animate (run [Frame, Frame, Frame] initialWorld))) = 1
   \<and> photonDir (state (animate (run [Frame, Frame, Frame] initialWorld))) = - 1"
proof -
  have a: "initialWorld = run [] initialWorld" by simp
  have b: "run [Frame, Frame, Frame] initialWorld = run [Frame, Frame, Frame] initialWorld"
    by simp
  have c: "list_all admissible []" by simp
  have d: "list_all admissible [Frame, Frame, Frame]" by (simp add: admissible_def)
  note i = photonPhase_bounded_bounce [OF c a, of "19 / 30"]
  note t = photonPhase_bounded_bounce [OF d b, of "31 / 30"]
  have "photonPhase (state (animate initialWorld)) = 19 / 30
      \<and> photonDir (state (animate initialWorld)) = 1"
    using i by (simp add: initial_fields fresh_fields step_zero)
  moreover have "photonPhase (state (animate (run [Frame, Frame, Frame] initialWorld))) = 1
      \<and> photonDir (state (animate (run [Frame, Frame, Frame] initialWorld))) = - 1"
    using t run3_phase by (simp add: step_zero)
  ultimately show ?thesis by simp
qed

text \<open>
  Claim C5. On a running tick with the velocity ratio in \<open>[0, 0.99]\<close>,
  \<open>celestialTime\<close> grows by the constant 0.02, whatever the ratio, and
  \<open>shipTime\<close> grows by the ratio times the reference speed times 0.05; in the
  LINEAR scenario \<open>linearOffset\<close> grows by the ratio times the reference speed.
  So the platform's own clock and offset stand still exactly when the ratio is
  0, while the celestial clock strictly grows, and neither clock decreases.
\<close>

theorem clocks_advance_when_running:
  assumes "isRunning w" and "0 \<le> orbitSpeed w" and "orbitSpeed w \<le> 99 / 100"
  shows "celestialTime (state (animate w)) = celestialTime (state w) + 2 / 100
       \<and> shipTime (state (animate w))
           = shipTime (state w) + orbitSpeed w * SPEED_OF_LIGHT * (5 / 100)
       \<and> linearOffset (state (animate (w\<lparr>scenario := LINEAR\<rparr>)))
           = linearOffset (state w) + orbitSpeed w * SPEED_OF_LIGHT
       \<and> (shipTime (state (animate w)) = shipTime (state w)) = (orbitSpeed w = 0)
       \<and> (linearOffset (state (animate (w\<lparr>scenario := LINEAR\<rparr>))) = linearOffset (state w))
           = (orbitSpeed w = 0)
       \<and> celestialTime (state w) < celestialTime (state (animate w))
       \<and> shipTime (state w) \<le> shipTime (state (animate w))"
proof -
  from assms(1) have r: "isRunning w = True" by simp
  show ?thesis using assms(2)
    by (simp add: animate_state r advance_running_fields CELESTIAL_DT_def vShip_def
          SPEED_OF_LIGHT_def)
qed

theorem clocks_advance_when_running_witness:
  "celestialTime (state (animate initialWorld)) = 2 / 100
   \<and> shipTime (state (animate initialWorld)) = 0
   \<and> celestialTime (state (animate (initialWorld\<lparr>orbitSpeed := 1 / 2\<rparr>))) = 2 / 100
   \<and> shipTime (state (animate (initialWorld\<lparr>orbitSpeed := 1 / 2\<rparr>))) = 2 / 100
   \<and> linearOffset (state (animate (initialWorld\<lparr>orbitSpeed := 1 / 2, scenario := LINEAR\<rparr>)))
       = 4 / 10"
  using clocks_advance_when_running [of initialWorld]
    clocks_advance_when_running [of "initialWorld\<lparr>orbitSpeed := 1 / 2\<rparr>"]
  by (simp add: initial_fields fresh_fields SPEED_OF_LIGHT_def)

section \<open>Kinematics\<close>

lemma sqrt_16_25: "sqrt (16 / 25) = (4 / 5 :: real)"
  by (rule real_sqrt_unique) (simp_all add: power2_eq_square)

lemma sqrt_beta_06: "sqrt (1 - (3 / 5)\<^sup>2) = (4 / 5 :: real)"
  by (rule real_sqrt_unique) (simp_all add: power2_eq_square)

text \<open>
  Claim C3. For a velocity ratio \<open>b\<close> in \<open>[0, 0.99]\<close> the driver's vertical speed
  is \<open>sqrt (1 - b\<^sup>2)\<close> times the reference speed, its horizontal speed is \<open>b\<close>
  times the reference speed, and the phase step is the vertical speed over the
  clock's length times a tick increment of 1: no elapsed time enters. A running
  tick moves the phase by the direction times that step (and then applies the
  bounce of C2), \<open>shipTime\<close> by the horizontal speed times 0.05 and, in LINEAR,
  the offset by the horizontal speed. At \<open>b = 0.6\<close> the vertical speed is 0.8
  times the reference speed, the horizontal speed 0.6 times it, and the
  contraction 0.8, each within \<open>10\<^sup>-\<^sup>6\<close> (exactly, over the reals).
\<close>

theorem kinematics_each_tick:
  assumes "0 \<le> b" and "b \<le> 99 / 100" and "orbitSpeed w = b" and "isRunning w"
      and "p = photonPhase (state w) + photonDir (state w) * (sqrt (1 - b\<^sup>2) * SPEED_OF_LIGHT / CLOCK_TRAVEL_DIST * 1)"
  shows "vVertical b = sqrt (1 - b\<^sup>2) * SPEED_OF_LIGHT
       \<and> vShip b = b * SPEED_OF_LIGHT
       \<and> photonPhaseStep b = vVertical b / CLOCK_TRAVEL_DIST * 1
       \<and> 0 < vVertical b \<and> vVertical b \<le> SPEED_OF_LIGHT
       \<and> photonPhase (state (animate w)) = (if 1 \<le> p then 1 else if p \<le> 0 then 0 else p)
       \<and> shipTime (state (animate w)) = shipTime (state w) + vShip b * (5 / 100)
       \<and> linearOffset (state (animate (w\<lparr>scenario := LINEAR\<rparr>))) = linearOffset (state w) + vShip b
       \<and> \<bar>vVertical (6 / 10) - (8 / 10) * SPEED_OF_LIGHT\<bar> < 1 / 10 ^ 6
       \<and> \<bar>vShip (6 / 10) - (6 / 10) * SPEED_OF_LIGHT\<bar> < 1 / 10 ^ 6
       \<and> \<bar>contraction (6 / 10) - 8 / 10\<bar> < 1 / 10 ^ 6"
proof -
  from assms(4) have r: "isRunning w = True" by simp
  have pos: "0 < 1 - b * b" using assms(1,2) by (rule sqrt_arg_pos)
  have le: "sqrt (1 - b * b) \<le> 1"
  proof -
    have "1 - b * b \<le> 1" by simp
    then show ?thesis using real_sqrt_le_1_iff by blast
  qed
  have v: "0 < vVertical b \<and> vVertical b \<le> SPEED_OF_LIGHT"
    using pos le by (simp add: vVertical_def SPEED_OF_LIGHT_def)
  have st: "photonPhaseStep b = sqrt (1 - b\<^sup>2) * SPEED_OF_LIGHT / CLOCK_TRAVEL_DIST * 1"
    by (simp add: photonPhaseStep_def vVertical_def power2_eq_square)
  have ph: "photonPhase (state (animate w)) = (if 1 \<le> p then 1 else if p \<le> 0 then 0 else p)"
    unfolding assms(5) st [symmetric]
    by (simp add: animate_phase r advance_running_phase assms(3))
  have tm: "shipTime (state (animate w)) = shipTime (state w) + vShip b * (5 / 100)"
    by (simp add: animate_state r advance_running_fields assms(3))
  have lo: "linearOffset (state (animate (w\<lparr>scenario := LINEAR\<rparr>))) = linearOffset (state w) + vShip b"
    by (simp add: animate_state r advance_running_fields assms(3))
  have c: "\<bar>vVertical (6 / 10) - (8 / 10) * SPEED_OF_LIGHT\<bar> < 1 / 10 ^ 6
       \<and> \<bar>vShip (6 / 10) - (6 / 10) * SPEED_OF_LIGHT\<bar> < 1 / 10 ^ 6
       \<and> \<bar>contraction (6 / 10) - 8 / 10\<bar> < 1 / 10 ^ 6"
    by (simp add: vVertical_def vShip_def contraction_def sqrt_16_25)
  show ?thesis using v ph tm lo c
    by (simp add: vVertical_def vShip_def photonPhaseStep_def power2_eq_square)
qed

theorem kinematics_each_tick_witness:
  "vVertical (6 / 10) = 64 / 100 \<and> vShip (6 / 10) = 48 / 100 \<and> photonPhaseStep (6 / 10) = 8 / 75
   \<and> photonPhase (state (animate (initialWorld\<lparr>orbitSpeed := 6 / 10\<rparr>))) = 91 / 150
   \<and> shipTime (state (animate (initialWorld\<lparr>orbitSpeed := 6 / 10\<rparr>))) = 24 / 1000"
  using kinematics_each_tick [of "6 / 10" "initialWorld\<lparr>orbitSpeed := 6 / 10\<rparr>" "91 / 150"]
  by (simp add: initial_fields fresh_fields sqrt_16_25 sqrt_beta_06 vVertical_def vShip_def photonPhaseStep_def
        SPEED_OF_LIGHT_def CLOCK_TRAVEL_DIST_def)

lemma contraction_range: "0 \<le> b \<Longrightarrow> b \<le> 99 / 100 \<Longrightarrow> 0 < contraction b \<and> contraction b \<le> 1"
proof -
  assume a: "0 \<le> b" "b \<le> 99 / 100"
  then have "0 < 1 - b * b" by (rule sqrt_arg_pos)
  moreover have "1 - b * b \<le> 1" by simp
  ultimately show ?thesis unfolding contraction_def
    using real_sqrt_gt_0_iff real_sqrt_le_1_iff by blast
qed

lemma animate_scale:
  "shipMesh_scale (objects (animate w)) =
     (if scenario w = LINEAR then vec3 (contraction (orbitSpeed w)) 1 1 else vec3 1 1 1)"
  "shipMesh_rotation (objects (animate (w\<lparr>scenario := LINEAR\<rparr>))) = vec3 0 0 0"
  "shipGroup_position (objects (animate (w\<lparr>scenario := LINEAR\<rparr>)))
     = vec3 (linearOffset (state (animate (w\<lparr>scenario := LINEAR\<rparr>)))) 0 0"
  by (simp_all add: animate_def Let_def positioning_def)

text \<open>
  Claim C4. For a velocity ratio in \<open>[0, 0.99]\<close>, a tick in the LINEAR scenario
  sets the platform's scale to \<open>(sqrt (1 - b\<^sup>2), 1, 1)\<close> with the platform
  unrotated and placed at \<open>(linearOffset, 0, 0)\<close>: the scaled axis is the axis it
  travels along, the other two keep scale 1. A tick in each of the three orbital
  scenarios sets the scale to \<open>(1, 1, 1)\<close>. The factor lies in \<open>(0, 1]\<close>; at rest
  it is 1 and the vertical speed is the reference speed, so the LINEAR platform
  keeps scale \<open>(1, 1, 1)\<close>.
\<close>

theorem contraction_only_in_linear:
  assumes "0 \<le> orbitSpeed w" and "orbitSpeed w \<le> 99 / 100"
  shows "shipMesh_scale (objects (animate (w\<lparr>scenario := LINEAR\<rparr>)))
           = vec3 (sqrt (1 - (orbitSpeed w)\<^sup>2)) 1 1
       \<and> shipMesh_rotation (objects (animate (w\<lparr>scenario := LINEAR\<rparr>))) = vec3 0 0 0
       \<and> shipGroup_position (objects (animate (w\<lparr>scenario := LINEAR\<rparr>)))
           = vec3 (linearOffset (state (animate (w\<lparr>scenario := LINEAR\<rparr>)))) 0 0
       \<and> shipMesh_scale (objects (animate (w\<lparr>scenario := EARTH_ORBIT\<rparr>))) = vec3 1 1 1
       \<and> shipMesh_scale (objects (animate (w\<lparr>scenario := SOLAR_SYSTEM\<rparr>))) = vec3 1 1 1
       \<and> shipMesh_scale (objects (animate (w\<lparr>scenario := GALAXY\<rparr>))) = vec3 1 1 1
       \<and> 0 < contraction (orbitSpeed w) \<and> contraction (orbitSpeed w) \<le> 1
       \<and> contraction 0 = 1 \<and> vVertical 0 = SPEED_OF_LIGHT
       \<and> shipMesh_scale (objects (animate (w\<lparr>scenario := LINEAR, orbitSpeed := 0\<rparr>))) = vec3 1 1 1"
  using contraction_range [OF assms]
  by (simp add: animate_scale contraction_def vVertical_def power2_eq_square)

theorem contraction_only_in_linear_witness:
  "shipMesh_scale (objects (animate (initialWorld\<lparr>orbitSpeed := 6 / 10, scenario := LINEAR\<rparr>)))
     = vec3 (8 / 10) 1 1
   \<and> shipMesh_scale (objects (animate (initialWorld\<lparr>orbitSpeed := 6 / 10, scenario := GALAXY\<rparr>)))
     = vec3 1 1 1"
  using contraction_only_in_linear [of "initialWorld\<lparr>orbitSpeed := 6 / 10\<rparr>"]
  by (simp add: sqrt_beta_06)

section \<open>Trail buffer\<close>

text \<open>A running LINEAR tick with the trail on.\<close>

lemma linear_tick_offset:
  "isRunning w \<Longrightarrow> scenario w = LINEAR \<Longrightarrow>
   linearOffset (state (animate w)) = linearOffset (state w) + vShip (orbitSpeed w)"
  by (simp add: animate_state advance_running_fields)

lemma linear_tick_photon_x:
  "scenario w = LINEAR \<Longrightarrow>
   vec_x (photon_position (objects (animate w))) = linearOffset (state (animate w))"
  by (simp add: animate_photon animate_state photon_linear_x)

lemma linear_tick_keep:
  assumes "isRunning w" "showTrail w" "scenario w = LINEAR"
      and "trailPoints (state w) \<noteq> []"
      and "length (trailPoints (state w)) < trailMax"
      and "linearOffset (state (animate w)) \<le> vec_x (hd (trailPoints (state w))) + 1200"
  shows "trailPoints (state (animate w))
           = trailPoints (state w) @ [photon_position (objects (animate w))]"
  using assms by (simp add: animate_trail Let_def)

lemma cruise:
  "isRunning w \<Longrightarrow> showTrail w \<Longrightarrow> scenario w = LINEAR \<Longrightarrow> trailPoints (state w) \<noteq> [] \<Longrightarrow>
   0 \<le> vShip (orbitSpeed w) \<Longrightarrow>
   linearOffset (state w) + real n * vShip (orbitSpeed w)
     \<le> vec_x (hd (trailPoints (state w))) + 1200 \<Longrightarrow>
   length (trailPoints (state w)) + n \<le> trailMax \<Longrightarrow>
   isRunning (run (replicate n Frame) w) \<and> showTrail (run (replicate n Frame) w)
   \<and> scenario (run (replicate n Frame) w) = LINEAR
   \<and> orbitSpeed (run (replicate n Frame) w) = orbitSpeed w
   \<and> linearOffset (state (run (replicate n Frame) w))
        = linearOffset (state w) + real n * vShip (orbitSpeed w)
   \<and> (\<exists>ps. trailPoints (state (run (replicate n Frame) w)) = trailPoints (state w) @ ps
            \<and> length ps = n)"
proof (induction n arbitrary: w)
  case 0
  then show ?case by simp
next
  case (Suc n)
  let ?v = "vShip (orbitSpeed w)"
  let ?w = "animate w"
  have off: "linearOffset (state ?w) = linearOffset (state w) + ?v"
    using Suc.prems(1,3) by (rule linear_tick_offset)
  have nv: "0 \<le> real n * ?v" using Suc.prems(5) by simp
  have le: "linearOffset (state ?w) \<le> vec_x (hd (trailPoints (state w))) + 1200"
    using Suc.prems(6) nv off by (simp add: algebra_simps)
  have lt: "length (trailPoints (state w)) < trailMax" using Suc.prems(7) by simp
  have tr: "trailPoints (state ?w) = trailPoints (state w) @ [photon_position (objects ?w)]"
    using Suc.prems(1-4) lt le by (rule linear_tick_keep)
  have hd_eq: "hd (trailPoints (state ?w)) = hd (trailPoints (state w))"
    using tr Suc.prems(4) by simp
  have ih: "isRunning (run (replicate n Frame) ?w) \<and> showTrail (run (replicate n Frame) ?w)
   \<and> scenario (run (replicate n Frame) ?w) = LINEAR
   \<and> orbitSpeed (run (replicate n Frame) ?w) = orbitSpeed ?w
   \<and> linearOffset (state (run (replicate n Frame) ?w))
        = linearOffset (state ?w) + real n * vShip (orbitSpeed ?w)
   \<and> (\<exists>ps. trailPoints (state (run (replicate n Frame) ?w)) = trailPoints (state ?w) @ ps
            \<and> length ps = n)"
  proof (rule Suc.IH)
    show "isRunning ?w" using Suc.prems(1) by simp
    show "showTrail ?w" using Suc.prems(2) by simp
    show "scenario ?w = LINEAR" using Suc.prems(3) by simp
    show "trailPoints (state ?w) \<noteq> []" using tr by simp
    show "0 \<le> vShip (orbitSpeed ?w)" using Suc.prems(5) by simp
    show "linearOffset (state ?w) + real n * vShip (orbitSpeed ?w)
            \<le> vec_x (hd (trailPoints (state ?w))) + 1200"
      using Suc.prems(6) off hd_eq by (simp add: algebra_simps)
    show "length (trailPoints (state ?w)) + n \<le> trailMax" using tr Suc.prems(7) by simp
  qed
  then obtain ps where ps: "trailPoints (state (run (replicate n Frame) ?w)) = trailPoints (state ?w) @ ps"
      "length ps = n" by blast
  have "trailPoints (state (run (replicate n Frame) ?w))
          = trailPoints (state w) @ (photon_position (objects ?w) # ps)
        \<and> length (photon_position (objects ?w) # ps) = Suc n"
    using ps tr by simp
  then have ex: "\<exists>qs. trailPoints (state (run (replicate n Frame) ?w)) = trailPoints (state w) @ qs
        \<and> length qs = Suc n" by blast
  have lo: "linearOffset (state (run (replicate n Frame) ?w))
        = linearOffset (state w) + real (Suc n) * ?v"
    using ih off by (simp add: algebra_simps)
  show ?case using ih ex lo by simp
qed

lemma capped_nonempty:
  "(if trailMax \<le> length t then tl (t @ [p]) else t @ [p]) \<noteq> []"
  by (cases t) (simp_all add: trailMax_def)


lemma paused_frames:
  "\<not> isRunning w \<Longrightarrow> showTrail w \<Longrightarrow>
   state (run (replicate n Frame) w) = state w
   \<and> \<not> isRunning (run (replicate n Frame) w) \<and> showTrail (run (replicate n Frame) w)
   \<and> orbitSpeed (run (replicate n Frame) w) = orbitSpeed w
   \<and> scenario (run (replicate n Frame) w) = scenario w"
proof (induction n arbitrary: w)
  case 0
  then show ?case by simp
next
  case (Suc n)
  have s: "state (animate w) = state w" using animate_paused_state [OF Suc.prems(1)] Suc.prems(2) by simp
  have "state (run (replicate n Frame) (animate w)) = state (animate w)
   \<and> \<not> isRunning (run (replicate n Frame) (animate w)) \<and> showTrail (run (replicate n Frame) (animate w))
   \<and> orbitSpeed (run (replicate n Frame) (animate w)) = orbitSpeed (animate w)
   \<and> scenario (run (replicate n Frame) (animate w)) = scenario (animate w)"
    by (rule Suc.IH) (simp_all add: Suc.prems)
  then show ?case using s by simp
qed

lemma run_F_TT:
  "celestialTime (state (run [Frame] initialWorld)) = 2 / 100
   \<and> showTrail (run [Frame] initialWorld)
   \<and> celestialTime (state (run [Frame, TogglePlay, TogglePlay] initialWorld)) = 4 / 100"
proof -
  define w where "w = run [Frame, TogglePlay] initialWorld"
  have f: "\<not> isRunning w" "showTrail w" "celestialTime (state w) = 2 / 100"
    unfolding w_def using run_Frame_TogglePlay by simp_all
  have "run [Frame, TogglePlay, TogglePlay] initialWorld = animate (w\<lparr>isRunning := True\<rparr>)"
    unfolding w_def using f(1) [unfolded w_def] by (simp add: handleTogglePlay_def)
  then have "celestialTime (state (run [Frame, TogglePlay, TogglePlay] initialWorld)) = 4 / 100"
    using f(3) by (simp add: animate_state advance_running_fields CELESTIAL_DT_def)
  moreover have "celestialTime (state (run [Frame] initialWorld)) = 2 / 100"
    by (simp add: animate_state initial_fields advance_running_fields fresh_fields CELESTIAL_DT_def)
  ultimately show ?thesis by (simp add: initial_fields)
qed

text \<open>
  Claim C6, as stated, fails twice. A paused tick with the trail switched off
  empties a trail that still holds points: in \<open>pausedTrailOff\<close> the application
  is paused and the trail holds the point of the one frame drawn; the tick that
  follows the toggle leaves no point. And pausing then resuming does not leave
  the state as it was, even with the trail on: resuming makes the loop effect
  run again, and its \<open>animate()\<close> is a running tick, so \<open>celestialTime\<close> goes
  from 0.02 to 0.04.
\<close>

theorem paused_tick_clears_trail_counterexample:
  "\<not> isRunning pausedTrailOff
   \<and> trailPoints (state pausedTrailOff) \<noteq> []
   \<and> trailPoints (state (animate pausedTrailOff)) = []
   \<and> state (animate pausedTrailOff) \<noteq> state pausedTrailOff
   \<and> run [Frame, TogglePlay, ToggleTrail] initialWorld = animate pausedTrailOff
   \<and> showTrail (run [Frame] initialWorld)
   \<and> celestialTime (state (run [Frame] initialWorld)) = 2 / 100
   \<and> celestialTime (state (run [Frame, TogglePlay, TogglePlay] initialWorld)) = 4 / 100
   \<and> state (run [Frame, TogglePlay, TogglePlay] initialWorld) \<noteq> state (run [Frame] initialWorld)"
proof -
  define w where "w = run [Frame, TogglePlay] initialWorld"
  have f: "\<not> isRunning w" "showTrail w"
    "trailPoints (state w) = [photon_position (objects (animate initialWorld))]"
    unfolding w_def using run_Frame_TogglePlay by simp_all
  have p: "pausedTrailOff = w\<lparr>showTrail := False\<rparr>" by (simp add: pausedTrailOff_def w_def)
  have 1: "\<not> isRunning pausedTrailOff" using f by (simp add: p)
  have 2: "trailPoints (state pausedTrailOff) \<noteq> []" using f by (simp add: p)
  have 3: "trailPoints (state (animate pausedTrailOff)) = []"
    by (simp add: animate_trail p)
  have 4: "state (animate pausedTrailOff) \<noteq> state pausedTrailOff"
    using 2 3 by auto
  have "run [Frame, TogglePlay, ToggleTrail] initialWorld = step ToggleTrail w"
    unfolding w_def by simp
  then have 5: "run [Frame, TogglePlay, ToggleTrail] initialWorld = animate pausedTrailOff"
    using f(2) by (simp add: p)
  have 6: "state (run [Frame, TogglePlay, TogglePlay] initialWorld) \<noteq> state (run [Frame] initialWorld)"
    using run_F_TT by auto
  show ?thesis using 1 2 3 4 5 6 run_F_TT by (simp del: run.simps)
qed

text \<open>
  Claim C6, amended. A tick of a paused simulation leaves both clocks, the
  linear offset, the phase and the direction as they are. It leaves the trail
  as it is while the trail is enabled, and empties it when the trail is
  disabled. With the trail enabled, pausing changes nothing and neither does any
  number of paused frames; resuming runs one running tick at once, so after a
  pause, any number of frames and a resume the state is exactly one running tick
  past the state at the pause.
\<close>

theorem paused_tick_keeps_clocks_and_phase:
  assumes "\<not> isRunning w"
  shows "celestialTime (state (animate w)) = celestialTime (state w)
       \<and> shipTime (state (animate w)) = shipTime (state w)
       \<and> linearOffset (state (animate w)) = linearOffset (state w)
       \<and> photonPhase (state (animate w)) = photonPhase (state w)
       \<and> photonDir (state (animate w)) = photonDir (state w)
       \<and> trailPoints (state (animate w)) = (if showTrail w then trailPoints (state w) else [])
       \<and> state (animate w) = (if showTrail w then state w else (state w)\<lparr>trailPoints := []\<rparr>)
       \<and> (showTrail w \<longrightarrow> state (step TogglePlay (w\<lparr>isRunning := True\<rparr>)) = state w)
       \<and> (showTrail w \<longrightarrow> state (run (replicate n Frame) w) = state w)
       \<and> (showTrail w \<longrightarrow>
            state (run (TogglePlay # replicate n Frame @ [TogglePlay]) (w\<lparr>isRunning := True\<rparr>))
              = state (animate (w\<lparr>isRunning := True\<rparr>)))"
proof -
  have w: "w\<lparr>isRunning := False\<rparr> = w" using assms by simp
  have a: "state (animate w) = (if showTrail w then state w else (state w)\<lparr>trailPoints := []\<rparr>)"
    using assms by (rule animate_paused_state)
  have p: "showTrail w \<longrightarrow> state (step TogglePlay (w\<lparr>isRunning := True\<rparr>)) = state w"
    using a by (simp add: handleTogglePlay_def w)
  have f: "showTrail w \<longrightarrow> state (run (replicate n Frame) w) = state w"
    using paused_frames [OF assms, of n] by simp
  have rt: "showTrail w \<longrightarrow>
            state (run (TogglePlay # replicate n Frame @ [TogglePlay]) (w\<lparr>isRunning := True\<rparr>))
              = state (animate (w\<lparr>isRunning := True\<rparr>))"
  proof
    assume t: "showTrail w"
    define u where "u = animate w"
    have u: "\<not> isRunning u" "showTrail u" "state u = state w" "orbitSpeed u = orbitSpeed w"
        "scenario u = scenario w"
      unfolding u_def using assms t a by simp_all
    define x where "x = run (replicate n Frame) u"
    have x: "state x = state w" "\<not> isRunning x" "showTrail x" "orbitSpeed x = orbitSpeed w"
        "scenario x = scenario w"
      unfolding x_def using paused_frames [OF u(1,2), of n] u by simp_all
    have "run (TogglePlay # replicate n Frame @ [TogglePlay]) (w\<lparr>isRunning := True\<rparr>)
            = step TogglePlay x"
      unfolding x_def u_def by (simp add: run_append handleTogglePlay_def w)
    also have "\<dots> = animate (x\<lparr>isRunning := True\<rparr>)" using x(2) by (simp add: handleTogglePlay_def)
    finally have "state (run (TogglePlay # replicate n Frame @ [TogglePlay]) (w\<lparr>isRunning := True\<rparr>))
            = state (animate (x\<lparr>isRunning := True\<rparr>))" by simp
    also have "\<dots> = state (animate (w\<lparr>isRunning := True\<rparr>))"
      by (rule state_animate_cong) (simp_all add: x t)
    finally show "state (run (TogglePlay # replicate n Frame @ [TogglePlay]) (w\<lparr>isRunning := True\<rparr>))
              = state (animate (w\<lparr>isRunning := True\<rparr>))" .
  qed
  show ?thesis using a p f rt by simp
qed

theorem paused_tick_keeps_clocks_and_phase_witness:
  "photonPhase (state (animate (run [Frame, TogglePlay] initialWorld))) = 19 / 30
   \<and> celestialTime (state (animate (run [Frame, TogglePlay] initialWorld))) = 2 / 100
   \<and> trailPoints (state (animate (run [Frame, TogglePlay] initialWorld)))
        = [photon_position (objects (animate initialWorld))]
   \<and> state (animate (run [Frame, TogglePlay] initialWorld)) = state (run [Frame, TogglePlay] initialWorld)
   \<and> state (run (replicate 3 Frame) (run [Frame, TogglePlay] initialWorld))
        = state (run [Frame, TogglePlay] initialWorld)
   \<and> celestialTime (state (run (TogglePlay # replicate 3 Frame @ [TogglePlay])
        ((run [Frame, TogglePlay] initialWorld)\<lparr>isRunning := True\<rparr>))) = 4 / 100"
proof -
  define w where "w = run [Frame, TogglePlay] initialWorld"
  have f: "\<not> isRunning w" "showTrail w"
    "trailPoints (state w) = [photon_position (objects (animate initialWorld))]"
    "photonPhase (state w) = 19 / 30" "celestialTime (state w) = 2 / 100"
    unfolding w_def using run_Frame_TogglePlay by simp_all
  have c: "celestialTime (state (animate (w\<lparr>isRunning := True\<rparr>))) = 4 / 100"
    using f(5) by (simp add: animate_state advance_running_fields CELESTIAL_DT_def)
  have "photonPhase (state (animate w)) = 19 / 30
   \<and> celestialTime (state (animate w)) = 2 / 100
   \<and> trailPoints (state (animate w)) = [photon_position (objects (animate initialWorld))]
   \<and> state (animate w) = state w
   \<and> state (run (replicate 3 Frame) w) = state w
   \<and> celestialTime (state (run (TogglePlay # replicate 3 Frame @ [TogglePlay])
        (w\<lparr>isRunning := True\<rparr>))) = 4 / 100"
    using paused_tick_keeps_clocks_and_phase [OF f(1), of 3] f c by (simp del: run.simps replicate.simps)
  then show ?thesis unfolding w_def .
qed



lemma vShip_099: "vShip (99 / 100) = 792 / 1000"
  by (simp add: vShip_def SPEED_OF_LIGHT_def)

lemma vShip_0: "vShip 0 = 0"
  by (simp add: vShip_def)

text \<open>The world after the first three events: two points at x = 0, a third at 0.792.\<close>

lemma stale_prefix:
  "isRunning (run [ScenarioChange LINEAR, Frame, SpeedChange (99 / 100)] initialWorld)
   \<and> showTrail (run [ScenarioChange LINEAR, Frame, SpeedChange (99 / 100)] initialWorld)
   \<and> scenario (run [ScenarioChange LINEAR, Frame, SpeedChange (99 / 100)] initialWorld) = LINEAR
   \<and> orbitSpeed (run [ScenarioChange LINEAR, Frame, SpeedChange (99 / 100)] initialWorld) = 99 / 100
   \<and> linearOffset (state (run [ScenarioChange LINEAR, Frame, SpeedChange (99 / 100)] initialWorld))
        = 792 / 1000
   \<and> (\<exists>a b c. trailPoints (state (run [ScenarioChange LINEAR, Frame, SpeedChange (99 / 100)] initialWorld))
          = [a, b, c] \<and> vec_x a = 0 \<and> vec_x b = 0)"
proof -
  let ?w0 = "scenarioEffect (initialWorld\<lparr>scenario := LINEAR\<rparr>)"
  let ?w1 = "animate ?w0"
  let ?w2 = "animate ?w1"
  let ?w2' = "?w2\<lparr>orbitSpeed := 99 / 100\<rparr>"
  let ?w3 = "animate ?w2'"
  have r: "run [ScenarioChange LINEAR, Frame, SpeedChange (99 / 100)] initialWorld = ?w3"
    by (simp add: initial_fields)
  have p0: "isRunning ?w0" "showTrail ?w0" "scenario ?w0 = LINEAR" "orbitSpeed ?w0 = 0"
    by (simp_all add: initial_fields)
  have s0: "state ?w0 = freshState" by (rule state_scenarioEffect)
  have o1: "linearOffset (state ?w1) = 0"
    using linear_tick_offset [OF p0(1) p0(3)] by (simp add: s0 fresh_fields initial_fields vShip_0)
  have t1: "trailPoints (state ?w1) = [photon_position (objects ?w1)]"
    using p0(1-3) by (simp add: animate_trail Let_def s0 fresh_fields trailMax_def
        linear_tick_photon_x)
  have x1: "vec_x (photon_position (objects ?w1)) = 0"
    using linear_tick_photon_x [OF p0(3)] o1 by simp
  have p1: "isRunning ?w1" "showTrail ?w1" "scenario ?w1 = LINEAR" "orbitSpeed ?w1 = 0"
    using p0 by simp_all
  have o2: "linearOffset (state ?w2) = 0"
    using linear_tick_offset [OF p1(1) p1(3)] by (simp add: o1 initial_fields vShip_0)
  have x2: "vec_x (photon_position (objects ?w2)) = 0"
    using linear_tick_photon_x [OF p1(3)] o2 by simp
  have t2: "trailPoints (state ?w2) = [photon_position (objects ?w1), photon_position (objects ?w2)]"
  proof -
    have "trailPoints (state ?w2) = trailPoints (state ?w1) @ [photon_position (objects ?w2)]"
      using p1(1-3) by (rule linear_tick_keep) (simp_all add: t1 trailMax_def o2 x1)
    then show ?thesis by (simp add: t1)
  qed
  have p2: "isRunning ?w2'" "showTrail ?w2'" "scenario ?w2' = LINEAR" "orbitSpeed ?w2' = 99 / 100"
    using p1 by simp_all
  have o3: "linearOffset (state ?w3) = 792 / 1000"
    using linear_tick_offset [OF p2(1) p2(3)] by (simp add: o2 vShip_099)
  have t3: "trailPoints (state ?w3) = [photon_position (objects ?w1), photon_position (objects ?w2),
       photon_position (objects ?w3)]"
  proof -
    have "trailPoints (state ?w3) = trailPoints (state ?w2') @ [photon_position (objects ?w3)]"
      using p2(1-3) by (rule linear_tick_keep) (simp_all add: t2 trailMax_def o3 x1)
    then show ?thesis by (simp add: t2)
  qed
  have p3: "isRunning ?w3" "showTrail ?w3" "scenario ?w3 = LINEAR" "orbitSpeed ?w3 = 99 / 100"
    using p2 by simp_all
  show ?thesis unfolding r using p3 o3 t3 x1 x2 by blast
qed

lemma stale_cruise:
  "isRunning (run staleCruiseEvents initialWorld)
   \<and> showTrail (run staleCruiseEvents initialWorld)
   \<and> scenario (run staleCruiseEvents initialWorld) = LINEAR
   \<and> orbitSpeed (run staleCruiseEvents initialWorld) = 99 / 100
   \<and> linearOffset (state (run staleCruiseEvents initialWorld)) = 119988 / 100
   \<and> (\<exists>a b c ps. trailPoints (state (run staleCruiseEvents initialWorld)) = [a, b, c] @ ps
         \<and> length ps = 1514 \<and> vec_x a = 0 \<and> vec_x b = 0)"
proof -
  define w3 where "w3 = run [ScenarioChange LINEAR, Frame, SpeedChange (99 / 100)] initialWorld"
  define w4 where "w4 = run (replicate 1514 Frame) w3"
  have r: "run staleCruiseEvents initialWorld = w4"
    unfolding staleCruiseEvents_def run_append w4_def w3_def by simp
  from stale_prefix obtain a b c where
    p3: "isRunning w3" "showTrail w3" "scenario w3 = LINEAR" "orbitSpeed w3 = 99 / 100"
    and o3: "linearOffset (state w3) = 792 / 1000"
    and t3: "trailPoints (state w3) = [a, b, c]" and xa: "vec_x a = 0" and xb: "vec_x b = 0"
    unfolding w3_def by blast
  have c: "isRunning (run (replicate 1514 Frame) w3) \<and> showTrail (run (replicate 1514 Frame) w3)
      \<and> scenario (run (replicate 1514 Frame) w3) = LINEAR
      \<and> orbitSpeed (run (replicate 1514 Frame) w3) = orbitSpeed w3
      \<and> linearOffset (state (run (replicate 1514 Frame) w3))
           = linearOffset (state w3) + real 1514 * vShip (orbitSpeed w3)
      \<and> (\<exists>ps. trailPoints (state (run (replicate 1514 Frame) w3)) = trailPoints (state w3) @ ps
               \<and> length ps = 1514)"
    using p3(1-3)
    by (rule cruise) (simp_all add: t3 p3(4) o3 xa vShip_099 trailMax_def)
  then obtain ps where
    p4: "isRunning w4" "showTrail w4" "scenario w4 = LINEAR" "orbitSpeed w4 = 99 / 100"
    and o4: "linearOffset (state w4) = 119988 / 100"
    and t4: "trailPoints (state w4) = [a, b, c] @ ps" and lp: "length ps = 1514"
    unfolding w4_def [symmetric] using p3(4) o3 t3 by (auto simp: vShip_099)
  show ?thesis unfolding r using p4 o4 t4 lp xa xb by blast
qed

lemma stale_last: "run staleTrailEvents initialWorld = animate (run staleCruiseEvents initialWorld)"
  unfolding staleTrailEvents_def staleCruiseEvents_def run_append by simp

text \<open>
  Claim C8, as stated, fails. After \<open>staleTrailEvents\<close>, an admissible
  sequence that ends in a running LINEAR tick with the trail on, the platform is at
  1200.672; of the two points laid down at rest at \<open>x = 0\<close> the last tick
  evicted the first, and the second is still the head of the trail, more than
  1200 behind.
\<close>

theorem stale_points_survive_counterexample:
  "list_all admissible staleTrailEvents
   \<and> isRunning (run staleTrailEvents initialWorld)
   \<and> showTrail (run staleTrailEvents initialWorld)
   \<and> scenario (run staleTrailEvents initialWorld) = LINEAR
   \<and> trailPoints (state (run staleTrailEvents initialWorld)) \<noteq> []
   \<and> vec_x (hd (trailPoints (state (run staleTrailEvents initialWorld))))
        < linearOffset (state (run staleTrailEvents initialWorld)) - 1200"
proof -
  define w4 where "w4 = run staleCruiseEvents initialWorld"
  define w5 where "w5 = animate w4"
  have r: "run staleTrailEvents initialWorld = w5"
    unfolding w5_def w4_def by (rule stale_last)
  from stale_cruise obtain a b c ps where
    p4: "isRunning w4" "showTrail w4" "scenario w4 = LINEAR" "orbitSpeed w4 = 99 / 100"
    and o4: "linearOffset (state w4) = 119988 / 100"
    and t4: "trailPoints (state w4) = [a, b, c] @ ps" and lp: "length ps = 1514"
    and xa: "vec_x a = 0" and xb: "vec_x b = 0"
    unfolding w4_def by blast
  have o5: "linearOffset (state w5) = 1200672 / 1000"
    unfolding w5_def using linear_tick_offset [OF p4(1) p4(3)] by (simp add: o4 p4(4) vShip_099)
  have t5: "trailPoints (state w5) = [b, c] @ ps @ [photon_position (objects w5)]"
    using p4(1-3) o5 unfolding w5_def by (simp add: animate_trail Let_def t4 lp trailMax_def xa)
  have p5: "isRunning w5" "showTrail w5" "scenario w5 = LINEAR"
    unfolding w5_def using p4 by simp_all
  have adm: "list_all admissible staleTrailEvents"
    by (simp add: staleTrailEvents_def admissible_def list_all_iff)
  show ?thesis unfolding r using p5 adm by (simp add: t5 o5 xb)
qed

text \<open>
  Claim C8, amended. In the LINEAR scenario, a running tick with the trail on
  appends the photon's position and applies the cap; if the oldest point then
  left is more than 1200 behind the platform's new offset, that one point is
  evicted, and no other: the rule removes at most one point per tick.
\<close>

theorem linear_trail_evicts_oldest_only:
  assumes "isRunning w" and "showTrail w" and "scenario w = LINEAR"
      and "t2 = (if trailMax \<le> length (trailPoints (state w))
                 then tl (trailPoints (state w) @ [photon_position (objects (animate w))])
                 else trailPoints (state w) @ [photon_position (objects (animate w))])"
  shows "t2 \<noteq> []
       \<and> trailPoints (state (animate w))
           = (if vec_x (hd t2) < linearOffset (state (animate w)) - 1200 then tl t2 else t2)
       \<and> length t2 \<le> length (trailPoints (state (animate w))) + 1"
proof -
  have ne: "t2 \<noteq> []" unfolding assms(4) by (rule capped_nonempty)
  have c: "(trailMax < Suc (length (trailPoints (state w)))) = (trailMax \<le> length (trailPoints (state w)))"
    by auto
  have tr: "trailPoints (state (animate w))
           = (if vec_x (hd t2) < linearOffset (state (animate w)) - 1200 then tl t2 else t2)"
    using assms(1-3) unfolding assms(4) by (simp add: animate_trail Let_def c)
  show ?thesis using ne tr by simp
qed

text \<open>
  The last tick of \<open>staleTrailEvents\<close> evicts the head of a trail of 1517 points,
  far below the cap; and with the platform at 1300 and points at 0, 50 and 200
  the tick evicts the point at 0 and keeps the point at 50.
\<close>

theorem linear_trail_evicts_oldest_only_witness:
  "length (trailPoints (state (run staleCruiseEvents initialWorld))) = 1517
   \<and> trailPoints (state (animate (run staleCruiseEvents initialWorld)))
       = tl (trailPoints (state (run staleCruiseEvents initialWorld))
             @ [photon_position (objects (animate (run staleCruiseEvents initialWorld)))])
   \<and> trailPoints (state (animate evictWorld))
       = [vec3 50 0 0, vec3 200 0 0, photon_position (objects (animate evictWorld))]"
proof -
  define w4 where "w4 = run staleCruiseEvents initialWorld"
  from stale_cruise obtain a b c ps where
    p4: "isRunning w4" "showTrail w4" "scenario w4 = LINEAR" "orbitSpeed w4 = 99 / 100"
    and o4: "linearOffset (state w4) = 119988 / 100"
    and t4: "trailPoints (state w4) = [a, b, c] @ ps" and lp: "length ps = 1514"
    and xa: "vec_x a = 0" and xb: "vec_x b = 0"
    unfolding w4_def by blast
  have o5: "linearOffset (state (animate w4)) = 1200672 / 1000"
    using linear_tick_offset [OF p4(1) p4(3)] by (simp add: o4 p4(4) vShip_099)
  have 1: "length (trailPoints (state w4)) = 1517" by (simp add: t4 lp)
  have 2: "trailPoints (state (animate w4))
       = tl (trailPoints (state w4) @ [photon_position (objects (animate w4))])"
    using linear_trail_evicts_oldest_only [OF p4(1-3),
        of "trailPoints (state w4) @ [photon_position (objects (animate w4))]"]
    by (simp add: t4 lp trailMax_def o5 xa)
  have e: "isRunning evictWorld" "showTrail evictWorld" "scenario evictWorld = LINEAR"
    "orbitSpeed evictWorld = 0"
    "trailPoints (state evictWorld) = [vec3 0 0 0, vec3 50 0 0, vec3 200 0 0]"
    "linearOffset (state evictWorld) = 1300"
    by (simp_all add: evictWorld_def initial_fields)
  have oe: "linearOffset (state (animate evictWorld)) = 1300"
    using linear_tick_offset [OF e(1) e(3)] by (simp add: e vShip_0)
  have 3: "trailPoints (state (animate evictWorld))
       = [vec3 50 0 0, vec3 200 0 0, photon_position (objects (animate evictWorld))]"
    using linear_trail_evicts_oldest_only [OF e(1-3),
        of "trailPoints (state evictWorld) @ [photon_position (objects (animate evictWorld))]"]
    by (simp add: e(5) trailMax_def oe vec3_def)
  show ?thesis using 1 2 3 unfolding w4_def by simp
qed

end
